theory Spec2Isabelle
  imports Complex_Main "HOL-Library.Word"
begin

section \<open>Data model of \<open>bpvo/vo.cc\<close>\<close>

text \<open>
  The file \<open>vo.cc\<close> holds the frame management of the visual odometry front end:
  \<open>VisualOdometry::Impl\<close> with \<open>addFrame\<close>, \<open>checkResult\<close>, \<open>shouldKeyFrame\<close>
  and \<open>getPointCloudFromRefFrame\<close>. The types it works on are declared in headers that
  are not part of the source at hand; they are modelled here from the way \<open>vo.cc\<close>
  uses them and from the specification.

  Conventions of the embedding:
  \<^item> \<open>float\<close> and \<open>double\<close> values are real numbers (no rounding); the one float
    division of the source whose divisor can be zero, the one of \<open>checkResult\<close>, has
    its outcome for a zero divisor written out;
  \<^item> \<open>int\<close> values are unbounded integers (no statistics vector has \<open>2^31\<close> entries);
  \<^item> \<open>Matrix44\<close> is a type parameter \<open>'m\<close> with the operations the code applies to it:
    \<open>a * b\<close> is the matrix product, \<open>inverse a\<close> is \<open>a.inverse()\<close> and \<open>1\<close> is
    \<open>Matrix44::Identity()\<close>; only the syntactic type classes are required, no law of
    theirs is used. The covariance matrix is a second type parameter \<open>'c\<close>;
  \<^item> an access outside a vector is undefined in the source: the model stops there with
    an \<open>error\<close> value;
  \<^item> a \<open>UniquePointer\<close> slot is modelled by the object it owns; the field \<open>storage\<close>
    of a frame names the allocation it lives in, and \<open>std::swap\<close> of two slots exchanges
    the two objects;
  \<^item> the variable \<open>image\<close> of the source is \<open>img\<close>, the member function \<open>empty\<close> of a
    frame is \<open>empty_frame\<close>.
\<close>

datatype error =
    InvalidInput
  | IndexOutOfRange
  | BadLength
  | BadConversion

datatype KeyFramingReason =
    kLargeTranslation
  | kLargeRotation
  | kSmallFracOfGoodPoints
  | kNoKeyFraming
  | kFirstFrame
  | kEstimationFailed

text \<open>
  Only the enumerator \<open>kSolverError\<close> of the solver status occurs in \<open>vo.cc\<close>; every
  other enumerator is \<open>kOtherStatus n\<close>.
\<close>

datatype PoseEstimationStatus = kSolverError | kOtherStatus nat

record OptimizerStatistics =
  finalError :: real
  numPixels :: int
  status :: PoseEstimationStatus

record AlgorithmParameters =
  numPyramidLevels :: int
  minImageDimensionForPyramid :: int
  maxTestLevel :: int
  maxSolutionError :: real
  minTranslationMagToKeyFrame :: real
  minRotationMagToKeyFrame :: real
  goodPointThreshold :: real
  maxFractionOfGoodPointsToKeyFrame :: real

record ImageSize =
  rows :: int
  cols :: int

text \<open>
  A \<open>cv::Mat\<close> of 8-bit samples: its dimensions and the accessor \<open>at<uint8_t>(row, col)\<close>.
\<close>

record Mat =
  mat_rows :: int
  mat_cols :: int
  mat_at :: "int \<Rightarrow> int \<Rightarrow> 8 word"

definition mat_empty :: "Mat \<Rightarrow> bool" where
  "mat_empty m = (mat_rows m \<le> 0 \<or> mat_cols m \<le> 0)"

type_synonym Point = "real \<times> real \<times> real"

type_synonym Color = "8 word \<times> 8 word \<times> 8 word \<times> 8 word"

record PointWithInfo =
  xyzw :: Point
  rgba :: Color
  weight :: real

type_synonym PointCloud = "PointWithInfo list"

record ('m, 'c) Result =
  success :: bool
  displacement :: 'm
  covariance :: 'c
  optimizerStatistics :: "OptimizerStatistics list"
  isKeyFrame :: bool
  keyFramingReason :: KeyFramingReason
  pointCloud :: "PointCloud option"

subsection \<open>Frames\<close>

text \<open>
  Modelled from the spec: the class \<open>VisualOdometryFrame\<close> (\<open>bpvo/vo_frame.h\<close>) is
  missing. A frame is \<^emph>\<open>empty\<close> (never received data), \<^emph>\<open>raw\<close> (has image and disparity
  but no template) or \<^emph>\<open>templated\<close>. \<open>setData\<close> stores raw sensor data and invalidates
  any prior template, \<open>setTemplate\<close> promotes raw data into templates, \<open>clear\<close> returns
  the frame to empty, \<open>empty\<close> reports that there is no data at all, \<open>hasTemplate\<close>
  that the frame can serve as reference. A frame has one template per pyramid level.
\<close>

datatype FrameState = Empty | Raw | Templated

record VisualOdometryFrame =
  storage :: nat
  frame_state :: FrameState
  imagePointer :: Mat
  disparityPointer :: Mat
  numLevels :: nat

definition setData :: "VisualOdometryFrame \<Rightarrow> Mat \<Rightarrow> Mat \<Rightarrow> VisualOdometryFrame" where
  "setData f I D = f\<lparr>frame_state := Raw, imagePointer := I, disparityPointer := D\<rparr>"

definition hasTemplate :: "VisualOdometryFrame \<Rightarrow> bool" where
  "hasTemplate f = (frame_state f = Templated)"

definition setTemplate :: "VisualOdometryFrame \<Rightarrow> VisualOdometryFrame" where
  "setTemplate f =
     (case frame_state f of
        Empty \<Rightarrow> f
      | Raw \<Rightarrow> f\<lparr>frame_state := Templated\<rparr>
      | Templated \<Rightarrow> f)"

definition clear :: "VisualOdometryFrame \<Rightarrow> VisualOdometryFrame" where
  "clear f = f\<lparr>frame_state := Empty\<rparr>"

definition empty_frame :: "VisualOdometryFrame \<Rightarrow> bool" where
  "empty_frame f = (frame_state f = Empty)"

text \<open>
  \<open>make_unique<VisualOdometryFrame>(K, b, params)\<close>: a new, empty frame in the
  allocation \<open>a\<close>, with one level per pyramid level of the parameters.
\<close>

definition blank_Mat :: Mat where
  "blank_Mat = \<lparr>mat_rows = 0, mat_cols = 0, mat_at = (\<lambda>r c. 0)\<rparr>"

definition new_frame :: "nat \<Rightarrow> AlgorithmParameters \<Rightarrow> VisualOdometryFrame" where
  "new_frame a p =
     \<lparr>storage = a, frame_state = Empty, imagePointer = blank_Mat,
      disparityPointer = blank_Mat, numLevels = nat (numPyramidLevels p)\<rparr>"

subsection \<open>Collaborators\<close>

text \<open>
  The pose estimator (\<open>bpvo/vo_pose_estimator.h\<close>), the template data of a frame and
  the Eigen operations on a pose are outside \<open>vo.cc\<close>. They are parameters of the
  model, collected in one record; \<open>'e\<close> is the state of the estimator, which
  \<open>estimatePose\<close> changes and \<open>getFractionOfGoodPoints\<close> and \<open>getWeights\<close> read.

  \<^item> \<open>estimatePose e ref cur T_guess\<close> returns the statistics, \<open>T_est\<close> and the new
    estimator state;
  \<^item> \<open>translation_squaredNorm T\<close> is \<open>T.block<3,1>(0,3).squaredNorm()\<close>;
  \<^item> \<open>eulerAngles_squaredNorm T\<close> is \<open>math::RotationMatrixToEulerAngles(T).squaredNorm()\<close>;
  \<^item> \<open>template_points f l\<close> is \<open>f->getTemplateDataAtLevel(l)->points()\<close> and
    \<open>template_warp f l p\<close> is \<open>f->getTemplateDataAtLevel(l)->warp().getImagePoint(p)\<close>,
    the image coordinate \<open>(uv[0], uv[1])\<close>;
  \<^item> \<open>default_Result\<close>, \<open>default_OptimizerStatistics\<close> and \<open>default_PointWithInfo\<close>
    are the default-constructed values of these types.
\<close>

record ('m, 'c, 'e) Collaborators =
  new_estimator :: "AlgorithmParameters \<Rightarrow> 'e"
  estimatePose ::
    "'e \<Rightarrow> VisualOdometryFrame \<Rightarrow> VisualOdometryFrame \<Rightarrow> 'm \<Rightarrow> OptimizerStatistics list \<times> 'm \<times> 'e"
  getFractionOfGoodPoints :: "'e \<Rightarrow> real \<Rightarrow> real"
  getWeights :: "'e \<Rightarrow> real list"
  translation_squaredNorm :: "'m \<Rightarrow> real"
  eulerAngles_squaredNorm :: "'m \<Rightarrow> real"
  template_points :: "VisualOdometryFrame \<Rightarrow> int \<Rightarrow> Point list"
  template_warp :: "VisualOdometryFrame \<Rightarrow> int \<Rightarrow> Point \<Rightarrow> real \<times> real"
  default_Result :: "('m, 'c) Result"
  default_OptimizerStatistics :: OptimizerStatistics
  default_PointWithInfo :: PointWithInfo

section \<open>The result validator: \<open>checkResult\<close>\<close>

text \<open>
  \<open>stats[i]\<close> on a \<open>std::vector\<close> is unchecked; outside the vector the model stops.
\<close>

definition stats_at :: "OptimizerStatistics list \<Rightarrow> int \<Rightarrow> error + OptimizerStatistics" where
  "stats_at stats i =
     (if 0 \<le> i \<and> i < int (length stats) then Inr (stats ! nat i) else Inl IndexOutOfRange)"

text \<open>
  The functions of \<open>checkResult\<close> return, beside their outcome, the indices at which
  they read the vector, in the order of the reads (\<open>rd\<close> holds the reads made so far).

  The first loop of \<open>checkResult\<close> writes index, error and pixel count of the levels
  from the last one down to \<open>maxTestLevel\<close> to a string stream.
\<close>

function log_loop ::
  "int \<Rightarrow> OptimizerStatistics list \<Rightarrow> int \<Rightarrow> int list \<Rightarrow> (int \<times> real \<times> int) list
    \<Rightarrow> int list \<times> (error + (int \<times> real \<times> int) list)" where
  "log_loop mtl stats i rd ss =
     (if i \<ge> mtl then
        (case stats_at stats i of
           Inl e \<Rightarrow> (rd @ [i], Inl e)
         | Inr s \<Rightarrow> log_loop mtl stats (i - 1) (rd @ [i]) (ss @ [(i, finalError s, numPixels s)]))
      else (rd, Inr ss))"
  by pat_completeness auto
termination
  by (relation "measure (\<lambda>(mtl, stats, i, rd, ss). nat (i - mtl + 1))") auto

declare log_loop.simps [simp del]

text \<open>The second loop returns \<open>false\<close> at the first level with a solver error.\<close>

function status_loop ::
  "int \<Rightarrow> OptimizerStatistics list \<Rightarrow> int \<Rightarrow> int list \<Rightarrow> int list \<times> (error + bool)" where
  "status_loop mtl stats i rd =
     (if i \<ge> mtl then
        (case stats_at stats i of
           Inl e \<Rightarrow> (rd @ [i], Inl e)
         | Inr s \<Rightarrow>
             if status s = kSolverError then (rd @ [i], Inr False)
             else status_loop mtl stats (i - 1) (rd @ [i]))
      else (rd, Inr True))"
  by pat_completeness auto
termination
  by (relation "measure (\<lambda>(mtl, stats, i, rd). nat (i - mtl + 1))") auto

declare status_loop.simps [simp del]

text \<open>
  The test \<open>finStats.finalError / finStats.numPixels > _params.maxSolutionError\<close> of
  \<open>checkResult\<close>. The quotient is a float quotient, formed without a guard. With a
  pixel count of zero it is \<open>+inf\<close> for a positive error, which is greater than every
  threshold, and \<open>NaN\<close> or \<open>-inf\<close> for an error of zero or below, which are greater
  than none: the sign of the error decides.
\<close>

definition error_exceeded :: "OptimizerStatistics \<Rightarrow> real \<Rightarrow> bool" where
  "error_exceeded finStats t =
     (if numPixels finStats = 0 then finalError finStats > 0
      else finalError finStats / real_of_int (numPixels finStats) > t)"

text \<open>\<open>checkResult\<close>, with the indices it reads.\<close>

definition checkResult_reads ::
  "AlgorithmParameters \<Rightarrow> OptimizerStatistics list \<Rightarrow> int list \<times> (error + bool)" where
  "checkResult_reads p stats =
     (case log_loop (maxTestLevel p) stats (int (length stats) - 1) [] [] of
        (rd, Inl e) \<Rightarrow> (rd, Inl e)
      | (rd, Inr ss) \<Rightarrow>
          (case stats_at stats (maxTestLevel p) of
             Inl e \<Rightarrow> (rd @ [maxTestLevel p], Inl e)
           | Inr finStats \<Rightarrow>
               if error_exceeded finStats (maxSolutionError p)
               then (rd @ [maxTestLevel p], Inr False)
               else status_loop (maxTestLevel p) stats (int (length stats) - 1)
                      (rd @ [maxTestLevel p])))"

definition checkResult :: "AlgorithmParameters \<Rightarrow> OptimizerStatistics list \<Rightarrow> error + bool" where
  "checkResult p stats = snd (checkResult_reads p stats)"

section \<open>The keyframing decision: \<open>shouldKeyFrame\<close>\<close>

text \<open>
  Modelled from the spec: \<open>math::sq\<close> is declared outside \<open>vo.cc\<close>; it squares its
  argument (the norms are compared with the squared thresholds).
\<close>

definition sq :: "real \<Rightarrow> real" where
  "sq x = x * x"

definition shouldKeyFrame ::
  "('m, 'c, 'e) Collaborators \<Rightarrow> AlgorithmParameters \<Rightarrow> 'e \<Rightarrow> 'm \<Rightarrow> KeyFramingReason" where
  "shouldKeyFrame env p vo_pose pose =
     (let t_norm = translation_squaredNorm env pose in
      if t_norm > sq (minTranslationMagToKeyFrame p) then kLargeTranslation
      else
        let r_norm = eulerAngles_squaredNorm env pose in
        if r_norm > sq (minRotationMagToKeyFrame p) then kLargeRotation
        else
          let frac_good = getFractionOfGoodPoints env vo_pose (goodPointThreshold p) in
          if frac_good < maxFractionOfGoodPointsToKeyFrame p then kSmallFracOfGoodPoints
          else kNoKeyFraming)"

section \<open>The point cloud extractor\<close>

text \<open>
  The conversion of a coordinate to the \<open>int\<close> argument of \<open>at\<close> truncates towards zero.
\<close>

definition c_trunc :: "real \<Rightarrow> int" where
  "c_trunc x = (if x \<ge> 0 then \<lfloor>x\<rfloor> else \<lceil>x\<rceil>)"

text \<open>
  \<open>GetColor(image, warp, p)\<close>; \<open>warp\<close> stands for \<open>warp.getImagePoint\<close>, its result is
  \<open>(uv[0], uv[1])\<close>.
\<close>

definition GetColor :: "Mat \<Rightarrow> (Point \<Rightarrow> real \<times> real) \<Rightarrow> Point \<Rightarrow> Color" where
  "GetColor img warp p =
     (let uv = warp p;
          c = (if snd uv \<ge> 0 \<and> snd uv < real_of_int (mat_rows img) \<and>
                  fst uv \<ge> 0 \<and> fst uv < real_of_int (mat_cols img)
               then mat_at img (c_trunc (snd uv)) (c_trunc (fst uv)) else 0)
      in (c, c, c, 255))"

text \<open>
  The loop of \<open>getPointCloudFromRefFrame\<close> over \<open>i = 0, ..., n - 1\<close>; \<open>ret\<close> is the
  cloud under construction. Its caller has checked that \<open>points\<close> and \<open>weights\<close> have
  \<open>n\<close> entries.
\<close>

function fill_cloud ::
  "Mat \<Rightarrow> (Point \<Rightarrow> real \<times> real) \<Rightarrow> Point list \<Rightarrow> real list \<Rightarrow> nat \<Rightarrow> nat \<Rightarrow> PointCloud
    \<Rightarrow> PointCloud" where
  "fill_cloud img warp points weights i n ret =
     (if i < n then
        (let color = GetColor img warp (points ! i) in
         fill_cloud img warp points weights (Suc i) n
           (ret[i := \<lparr>xyzw = points ! i, rgba = color, weight = weights ! i\<rparr>]))
      else ret)"
  by pat_completeness auto
termination
  by (relation "measure (\<lambda>(img, warp, points, weights, i, n, ret). n - i)") auto

declare fill_cloud.simps [simp del]

section \<open>The implementation object\<close>

text \<open>
  The calls that the claims speak about are recorded: \<open>call_log\<close> is a history
  variable of the model, not a field of the class. An entry is written when
  \<open>estimatePose\<close> is called (with the reference frame, the current frame and the seed
  pose it is given) and when \<open>shouldKeyFrame\<close> is called (with the pose it is given).
\<close>

datatype 'm Call =
    Call_estimatePose VisualOdometryFrame VisualOdometryFrame 'm
  | Call_shouldKeyFrame 'm

record ('m, 'e) Impl =
  params :: AlgorithmParameters
  image_size :: ImageSize
  vo_pose :: 'e
  ref_frame :: VisualOdometryFrame
  cur_frame :: VisualOdometryFrame
  prev_frame :: VisualOdometryFrame
  T_kf :: 'm
  trajectory :: "'m list"
  call_log :: "'m Call list"

text \<open>\<open>std::round\<close> rounds to the nearest integer, halfway cases away from zero.\<close>

definition c_round :: "real \<Rightarrow> int" where
  "c_round x = (if x \<ge> 0 then \<lfloor>x + 1 / 2\<rfloor> else \<lceil>x - 1 / 2\<rceil>)"

text \<open>
  The constructor. The calibration matrix and the baseline are only handed on to the
  frames and are left out. Where the quotient of the automatic level count is not
  positive (or its divisor is zero) the logarithm is not a number and its conversion
  to \<open>int\<close> is undefined. The three frames are three allocations.
\<close>

definition Impl_new ::
  "('m::one, 'c, 'e) Collaborators \<Rightarrow> ImageSize \<Rightarrow> AlgorithmParameters \<Rightarrow> error + ('m, 'e) Impl" where
  "Impl_new env s p =
     (let q = real_of_int (min (rows s) (cols s)) / real_of_int (minImageDimensionForPyramid p) in
      if numPyramidLevels p \<le> 0 \<and> (minImageDimensionForPyramid p = 0 \<or> q \<le> 0)
      then Inl BadConversion
      else
        let p' = (if numPyramidLevels p \<le> 0
                  then p\<lparr>numPyramidLevels := 1 + c_round (log 2 q)\<rparr> else p)
        in Inr \<lparr>params = p', image_size = s, vo_pose = new_estimator env p,
                ref_frame = new_frame 0 p', cur_frame = new_frame 1 p',
                prev_frame = new_frame 2 p', T_kf = 1, trajectory = [],
                call_log = []\<rparr>)"

text \<open>\<open>std::vector::resize(n)\<close> with the value of new entries.\<close>

definition resize :: "'a list \<Rightarrow> nat \<Rightarrow> 'a \<Rightarrow> 'a list" where
  "resize xs n d = take n xs @ replicate (n - length xs) d"

text \<open>
  \<open>FirstFrameResult(n_levels)\<close>. The \<open>int\<close> argument is converted to the unsigned size
  of \<open>resize\<close>; a negative one asks for more entries than a vector can hold.
\<close>

definition FirstFrameResult ::
  "('m::one, 'c::one, 'e) Collaborators \<Rightarrow> int \<Rightarrow> error + ('m, 'c) Result" where
  "FirstFrameResult env n_levels =
     (if n_levels < 0 then Inl BadLength
      else
        let r = default_Result env;
            r = r\<lparr>success := False\<rparr>;
            r = r\<lparr>displacement := 1\<rparr>;
            r = r\<lparr>covariance := 1\<rparr>;
            r = r\<lparr>optimizerStatistics :=
                  resize (optimizerStatistics r) (nat n_levels) (default_OptimizerStatistics env)\<rparr>;
            r = r\<lparr>isKeyFrame := True\<rparr>;
            r = r\<lparr>keyFramingReason := kFirstFrame\<rparr>;
            r = r\<lparr>pointCloud := None\<rparr>
        in Inr r)"

text \<open>
  \<open>pointsAtLevel\<close>: the reference slot of the model always holds a frame (the
  constructor fills it and nothing resets it), so its null check cannot fail.
\<close>

definition pointsAtLevel :: "('m, 'c, 'e) Collaborators \<Rightarrow> ('m, 'e) Impl \<Rightarrow> int \<Rightarrow> Point list" where
  "pointsAtLevel env impl level =
     (let level = (if level < 0 then maxTestLevel (params impl) else level)
      in template_points env (ref_frame impl) level)"

definition getPointCloudFromRefFrame ::
  "('m, 'c, 'e) Collaborators \<Rightarrow> ('m, 'e) Impl \<Rightarrow> PointCloud option" where
  "getPointCloudFromRefFrame env impl =
     (let points = pointsAtLevel env impl (maxTestLevel (params impl));
          weights = getWeights env (vo_pose impl);
          n = length points
      in if n \<noteq> length weights then None
         else
           let ret = replicate n (default_PointWithInfo env);
               img = imagePointer (ref_frame impl);
               warp = template_warp env (ref_frame impl) (maxTestLevel (params impl))
           in Some (fill_cloud img warp points weights 0 n ret))"

text \<open>The two recorded calls: the call itself and its entry in \<open>call_log\<close>.\<close>

definition call_estimatePose ::
  "('m, 'c, 'e) Collaborators \<Rightarrow> ('m, 'e) Impl \<Rightarrow> 'm
    \<Rightarrow> OptimizerStatistics list \<times> 'm \<times> ('m, 'e) Impl" where
  "call_estimatePose env impl T_guess =
     (case estimatePose env (vo_pose impl) (ref_frame impl) (cur_frame impl) T_guess of
        (stats, T_est, e) \<Rightarrow>
          (stats, T_est,
           impl\<lparr>vo_pose := e,
                call_log := call_log impl @
                  [Call_estimatePose (ref_frame impl) (cur_frame impl) T_guess]\<rparr>))"

definition call_shouldKeyFrame ::
  "('m, 'c, 'e) Collaborators \<Rightarrow> ('m, 'e) Impl \<Rightarrow> 'm \<Rightarrow> KeyFramingReason \<times> ('m, 'e) Impl" where
  "call_shouldKeyFrame env impl pose =
     (shouldKeyFrame env (params impl) (vo_pose impl) pose,
      impl\<lparr>call_log := call_log impl @ [Call_shouldKeyFrame pose]\<rparr>)"

section \<open>\<open>addFrame\<close>\<close>

text \<open>
  The branch of \<open>addFrame\<close> taken when \<open>ret.isKeyFrame\<close> holds (lines 191 to 237).
\<close>

definition keyframe_transition ::
  "('m::{times,inverse,one}, 'c, 'e) Collaborators \<Rightarrow> ('m, 'e) Impl \<Rightarrow> ('m, 'c) Result \<Rightarrow> 'm
    \<Rightarrow> error + ('m, 'c) Result \<times> ('m, 'e) Impl" where
  "keyframe_transition env impl ret guess =
     (let impl = impl\<lparr>T_kf := 1\<rparr>;
          ret = ret\<lparr>pointCloud := getPointCloudFromRefFrame env impl\<rparr>
      in if empty_frame (prev_frame impl) then
           (let impl = impl\<lparr>cur_frame := ref_frame impl, ref_frame := cur_frame impl\<rparr>;
                impl = impl\<lparr>ref_frame := setTemplate (ref_frame impl)\<rparr>;
                ret = ret\<lparr>success := False\<rparr>
            in Inr (ret, impl))
         else
           (let impl = impl\<lparr>prev_frame := ref_frame impl, ref_frame := prev_frame impl\<rparr>;
                impl = impl\<lparr>prev_frame := clear (prev_frame impl)\<rparr>;
                impl = impl\<lparr>ref_frame := setTemplate (ref_frame impl)\<rparr>;
                T_guess = guess
            in case call_estimatePose env impl T_guess of
                 (stats, T_est, impl) \<Rightarrow>
                   (let ret = ret\<lparr>optimizerStatistics := stats\<rparr>;
                        ret = ret\<lparr>displacement := T_est\<rparr>;
                        impl = impl\<lparr>T_kf := T_est\<rparr>
                    in case checkResult (params impl) (optimizerStatistics ret) of
                         Inl e \<Rightarrow> Inl e
                       | Inr ok \<Rightarrow>
                           (let ret = ret\<lparr>success := ok\<rparr>
                            in case (if \<not> success ret then (kEstimationFailed, impl)
                                     else call_shouldKeyFrame env impl T_est) of
                                 (reason, impl) \<Rightarrow>
                                   (let ret = ret\<lparr>keyFramingReason := reason\<rparr>;
                                        ret = (if keyFramingReason ret \<noteq> kNoKeyFraming
                                               then ret\<lparr>success := False\<rparr> else ret)
                                    in Inr (ret, impl))))))"

text \<open>\<open>VisualOdometry::Impl::addFrame\<close>.\<close>

definition addFrame_Impl ::
  "('m::{times,inverse,one}, 'c::one, 'e) Collaborators \<Rightarrow> ('m, 'e) Impl \<Rightarrow> Mat \<Rightarrow> Mat \<Rightarrow> 'm
    \<Rightarrow> error + ('m, 'c) Result \<times> ('m, 'e) Impl" where
  "addFrame_Impl env impl I D guess =
     (let impl = impl\<lparr>cur_frame := setData (cur_frame impl) I D\<rparr>
      in if \<not> hasTemplate (ref_frame impl) then
           (let impl = impl\<lparr>ref_frame := cur_frame impl, cur_frame := ref_frame impl\<rparr>;
                impl = impl\<lparr>ref_frame := setTemplate (ref_frame impl)\<rparr>;
                impl = impl\<lparr>trajectory := trajectory impl @ [T_kf impl]\<rparr>
            in case FirstFrameResult env (int (numLevels (ref_frame impl))) of
                 Inl e \<Rightarrow> Inl e
               | Inr r \<Rightarrow> Inr (r, impl))
         else
           (let T_guess = T_kf impl * guess;
                ret = default_Result env
            in case call_estimatePose env impl T_guess of
                 (stats, T_est, impl) \<Rightarrow>
                   (let ret = ret\<lparr>optimizerStatistics := stats\<rparr>
                    in case checkResult (params impl) (optimizerStatistics ret) of
                         Inl e \<Rightarrow> Inl e
                       | Inr ok \<Rightarrow>
                           (let ret = ret\<lparr>success := ok\<rparr>
                            in case (if \<not> success ret then (kEstimationFailed, impl)
                                     else call_shouldKeyFrame env impl T_est) of
                                 (reason, impl) \<Rightarrow>
                                   (let ret = ret\<lparr>keyFramingReason := reason\<rparr>;
                                        ret = ret\<lparr>isKeyFrame := (kNoKeyFraming \<noteq> keyFramingReason ret)\<rparr>
                                    in if \<not> isKeyFrame ret then
                                         (let impl = impl\<lparr>prev_frame := cur_frame impl,
                                                          cur_frame := prev_frame impl\<rparr>;
                                              ret = ret\<lparr>displacement := T_est * inverse (T_kf impl)\<rparr>;
                                              impl = impl\<lparr>T_kf := T_est\<rparr>
                                          in Inr (ret, impl))
                                       else keyframe_transition env impl ret guess)))))"

text \<open>
  \<open>VisualOdometry::addFrame\<close>: the public entry point refuses an empty image or
  disparity before it hands over to the implementation.
\<close>

definition VisualOdometry_addFrame ::
  "('m::{times,inverse,one}, 'c::one, 'e) Collaborators \<Rightarrow> ('m, 'e) Impl \<Rightarrow> Mat \<Rightarrow> Mat \<Rightarrow> 'm
    \<Rightarrow> error + ('m, 'c) Result \<times> ('m, 'e) Impl" where
  "VisualOdometry_addFrame env impl img disparity guess =
     (if mat_empty img \<or> mat_empty disparity then Inl InvalidInput
      else addFrame_Impl env impl img disparity guess)"

text \<open>A sequence of \<open>addFrame\<close> calls on one instance; it ends at the first error.\<close>

fun run_frames ::
  "('m::{times,inverse,one}, 'c::one, 'e) Collaborators \<Rightarrow> ('m, 'e) Impl \<Rightarrow> (Mat \<times> Mat \<times> 'm) list
    \<Rightarrow> error + ('m, 'e) Impl" where
  "run_frames env impl [] = Inr impl"
| "run_frames env impl ((I, D, guess) # fs) =
     (case addFrame_Impl env impl I D guess of
        Inl e \<Rightarrow> Inl e
      | Inr (ret, impl') \<Rightarrow> run_frames env impl' fs)"

section \<open>A concrete instance\<close>

text \<open>
  A small instance of the collaborators on which the definitions can be evaluated.
  A pose is a real number (a matrix with one entry) whose distance from \<open>1\<close> counts as
  its translation and as its rotation; the estimator is a script: a list
  of the outcomes (statistics and estimated pose) that its next calls return, together
  with a fixed list of weights and a fixed fraction of good points.
\<close>

record ScriptedEstimator =
  outcomes :: "(OptimizerStatistics list \<times> real) list"
  script_weights :: "real list"
  script_fraction :: real

definition scripted_estimatePose ::
  "ScriptedEstimator \<Rightarrow> VisualOdometryFrame \<Rightarrow> VisualOdometryFrame \<Rightarrow> real
    \<Rightarrow> OptimizerStatistics list \<times> real \<times> ScriptedEstimator" where
  "scripted_estimatePose e rf cf T_guess =
     (case outcomes e of
        [] \<Rightarrow> ([], T_guess, e)
      | (st, T) # rest \<Rightarrow> (st, T, e\<lparr>outcomes := rest\<rparr>))"

definition scripted :: "ScriptedEstimator \<Rightarrow> (real, real, ScriptedEstimator) Collaborators" where
  "scripted e0 =
     \<lparr>new_estimator = (\<lambda>p. e0),
      estimatePose = scripted_estimatePose,
      getFractionOfGoodPoints = (\<lambda>e thr. script_fraction e),
      getWeights = script_weights,
      translation_squaredNorm = (\<lambda>T. (T - 1) * (T - 1)),
      eulerAngles_squaredNorm = (\<lambda>T. (T - 1) * (T - 1)),
      template_points = (\<lambda>f l. [(0, 0, 3), (7, 1, 3)]),
      template_warp = (\<lambda>f l (x, y, z). (x, y)),
      default_Result =
        \<lparr>success = False, displacement = 0, covariance = 0, optimizerStatistics = [],
         isKeyFrame = False, keyFramingReason = kNoKeyFraming, pointCloud = None\<rparr>,
      default_OptimizerStatistics = \<lparr>finalError = 0, numPixels = 0, status = kOtherStatus 0\<rparr>,
      default_PointWithInfo = \<lparr>xyzw = (0, 0, 0), rgba = (0, 0, 0, 0), weight = 0\<rparr>\<rparr>"

definition demo_params :: AlgorithmParameters where
  "demo_params =
     \<lparr>numPyramidLevels = 2, minImageDimensionForPyramid = 40, maxTestLevel = 0,
      maxSolutionError = 10, minTranslationMagToKeyFrame = 1, minRotationMagToKeyFrame = 1,
      goodPointThreshold = 1 / 2, maxFractionOfGoodPointsToKeyFrame = 1 / 2\<rparr>"

definition demo_size :: ImageSize where
  "demo_size = \<lparr>rows = 2, cols = 2\<rparr>"

definition demo_Mat :: Mat where
  "demo_Mat = \<lparr>mat_rows = 2, mat_cols = 2, mat_at = (\<lambda>r c. if r = 0 \<and> c = 0 then 10 else 20)\<rparr>"

definition good_stats :: "OptimizerStatistics list" where
  "good_stats =
     [\<lparr>finalError = 4, numPixels = 2, status = kOtherStatus 0\<rparr>,
      \<lparr>finalError = 1, numPixels = 1, status = kOtherStatus 0\<rparr>]"

definition failed_stats :: "OptimizerStatistics list" where
  "failed_stats =
     [\<lparr>finalError = 4, numPixels = 2, status = kOtherStatus 0\<rparr>,
      \<lparr>finalError = 1, numPixels = 1, status = kSolverError\<rparr>]"

text \<open>
  Statistics without pixels at level 0: with a positive error (the quotient is \<open>+inf\<close>)
  and with no error (the quotient is \<open>NaN\<close>).
\<close>

definition no_pixel_stats :: "OptimizerStatistics list" where
  "no_pixel_stats =
     [\<lparr>finalError = 1, numPixels = 0, status = kOtherStatus 0\<rparr>,
      \<lparr>finalError = 1, numPixels = 1, status = kOtherStatus 0\<rparr>]"

definition void_stats :: "OptimizerStatistics list" where
  "void_stats =
     [\<lparr>finalError = 0, numPixels = 0, status = kOtherStatus 0\<rparr>,
      \<lparr>finalError = 1, numPixels = 1, status = kOtherStatus 0\<rparr>]"

definition demo_estimator :: "(OptimizerStatistics list \<times> real) list \<Rightarrow> ScriptedEstimator" where
  "demo_estimator os = \<lparr>outcomes = os, script_weights = [1 / 2, 1 / 4], script_fraction = 1\<rparr>"

text \<open>What a call returned: success, keyframe flag and reason of a completed call.\<close>

definition flags ::
  "error + ('m, 'c) Result \<times> ('m, 'e) Impl \<Rightarrow> (bool \<times> bool \<times> KeyFramingReason) option" where
  "flags r =
     (case r of
        Inl e \<Rightarrow> None
      | Inr (ret, impl) \<Rightarrow> Some (success ret, isKeyFrame ret, keyFramingReason ret))"

text \<open>The states of the three slots (reference, current, previous) after a completed call.\<close>

definition slot_states ::
  "error + ('m, 'c) Result \<times> ('m, 'e) Impl \<Rightarrow> (FrameState \<times> FrameState \<times> FrameState) option" where
  "slot_states r =
     (case r of
        Inl e \<Rightarrow> None
      | Inr (ret, impl) \<Rightarrow>
          Some (frame_state (ref_frame impl), frame_state (cur_frame impl),
                frame_state (prev_frame impl)))"

text \<open>The call on the state that a sequence of earlier calls has reached.\<close>

definition addFrame_after ::
  "('m::{times,inverse,one}, 'c::one, 'e) Collaborators \<Rightarrow> error + ('m, 'e) Impl
    \<Rightarrow> Mat \<Rightarrow> Mat \<Rightarrow> 'm \<Rightarrow> error + ('m, 'c) Result \<times> ('m, 'e) Impl" where
  "addFrame_after env st I D guess =
     (case st of
        Inl e \<Rightarrow> Inl e
      | Inr impl \<Rightarrow> addFrame_Impl env impl I D guess)"

definition fresh_then ::
  "(OptimizerStatistics list \<times> real) list \<Rightarrow> nat \<Rightarrow> error + (real, ScriptedEstimator) Impl" where
  "fresh_then os n =
     (case Impl_new (scripted (demo_estimator os)) demo_size demo_params of
        Inl e \<Rightarrow> Inl e
      | Inr impl \<Rightarrow>
          run_frames (scripted (demo_estimator os)) impl (replicate n (demo_Mat, demo_Mat, 1)))"

definition demo_env :: "(real, real, ScriptedEstimator) Collaborators" where
  "demo_env = scripted (demo_estimator [])"

text \<open>
  An instance in the tracking state: the reference slot is templated, the accumulated
  pose is \<open>3 / 2\<close>, the previous slot is in the given state and the estimator is about
  to return the given outcomes.
\<close>

definition demo_tracking ::
  "FrameState \<Rightarrow> (OptimizerStatistics list \<times> real) list \<Rightarrow> (real, ScriptedEstimator) Impl" where
  "demo_tracking pst os =
     \<lparr>params = demo_params, image_size = demo_size, vo_pose = demo_estimator os,
      ref_frame = \<lparr>storage = 1, frame_state = Templated, imagePointer = demo_Mat,
                   disparityPointer = demo_Mat, numLevels = 2\<rparr>,
      cur_frame = \<lparr>storage = 0, frame_state = Empty, imagePointer = blank_Mat,
                   disparityPointer = blank_Mat, numLevels = 2\<rparr>,
      prev_frame = \<lparr>storage = 2, frame_state = pst, imagePointer = demo_Mat,
                    disparityPointer = demo_Mat, numLevels = 2\<rparr>,
      T_kf = 3 / 2, trajectory = [1], call_log = []\<rparr>"

section \<open>Properties of \<open>checkResult\<close>\<close>

subsection \<open>The two loops\<close>

lemma log_loop_reads: "set (fst (log_loop mtl stats i rd ss)) \<subseteq> set rd \<union> {mtl..i}"
proof (induction mtl stats i rd ss rule: log_loop.induct)
  case (1 mtl stats i rd ss)
  show ?case
  proof (cases "i \<ge> mtl")
    case False
    then show ?thesis by (subst log_loop.simps) simp
  next
    case True
    show ?thesis
    proof (cases "stats_at stats i")
      case (Inl e)
      with True show ?thesis by (subst log_loop.simps) simp
    next
      case (Inr s)
      from 1 [OF True Inr] have "set (fst (log_loop mtl stats (i - 1) (rd @ [i])
          (ss @ [(i, finalError s, numPixels s)]))) \<subseteq> set rd \<union> {mtl..i}"
        using True by auto
      with True Inr show ?thesis by (subst log_loop.simps) simp
    qed
  qed
qed

lemma log_loop_ok:
  "0 \<le> mtl \<Longrightarrow> i < int (length stats) \<Longrightarrow> \<exists>ss'. snd (log_loop mtl stats i rd ss) = Inr ss'"
proof (induction mtl stats i rd ss rule: log_loop.induct)
  case (1 mtl stats i rd ss)
  show ?case
  proof (cases "i \<ge> mtl")
    case False
    then show ?thesis by (subst log_loop.simps) simp
  next
    case True
    with 1(2,3) have at: "stats_at stats i = Inr (stats ! nat i)" by (simp add: stats_at_def)
    from 1(1) [OF True at] 1(2,3)
    have "\<exists>ss'. snd (log_loop mtl stats (i - 1) (rd @ [i])
        (ss @ [(i, finalError (stats ! nat i), numPixels (stats ! nat i))])) = Inr ss'"
      by simp
    with True at show ?thesis by (subst log_loop.simps) simp
  qed
qed

lemma log_loop_negative:
  "mtl < 0 \<Longrightarrow> mtl \<le> i \<Longrightarrow> i < int (length stats) \<Longrightarrow>
   snd (log_loop mtl stats i rd ss) = Inl IndexOutOfRange"
proof (induction mtl stats i rd ss rule: log_loop.induct)
  case (1 mtl stats i rd ss)
  show ?case
  proof (cases "0 \<le> i")
    case False
    with 1(2,3) show ?thesis by (subst log_loop.simps) (simp add: stats_at_def)
  next
    case True
    with 1(4) have at: "stats_at stats i = Inr (stats ! nat i)" by (simp add: stats_at_def)
    from 1(1) [OF 1(3) at] 1(2,4) True
    have "snd (log_loop mtl stats (i - 1) (rd @ [i])
        (ss @ [(i, finalError (stats ! nat i), numPixels (stats ! nat i))])) = Inl IndexOutOfRange"
      by simp
    with 1(3) at show ?thesis by (subst log_loop.simps) simp
  qed
qed

lemma status_loop_reads: "set (fst (status_loop mtl stats i rd)) \<subseteq> set rd \<union> {mtl..i}"
proof (induction mtl stats i rd rule: status_loop.induct)
  case (1 mtl stats i rd)
  show ?case
  proof (cases "i \<ge> mtl")
    case False
    then show ?thesis by (subst status_loop.simps) simp
  next
    case True
    show ?thesis
    proof (cases "stats_at stats i")
      case (Inl e)
      with True show ?thesis by (subst status_loop.simps) simp
    next
      case (Inr s)
      show ?thesis
      proof (cases "status s = kSolverError")
        case True
        with \<open>i \<ge> mtl\<close> Inr show ?thesis by (subst status_loop.simps) simp
      next
        case False
        from 1 [OF True Inr False]
        have "set (fst (status_loop mtl stats (i - 1) (rd @ [i]))) \<subseteq> set rd \<union> {mtl..i}"
          using True by auto
        with True Inr False show ?thesis by (subst status_loop.simps) simp
      qed
    qed
  qed
qed

text \<open>
  Within the vector the second loop answers whether no level from \<open>i\<close> down to
  \<open>mtl\<close> has a solver error.
\<close>

lemma status_loop_result:
  "0 \<le> mtl \<Longrightarrow> i < int (length stats) \<Longrightarrow>
   snd (status_loop mtl stats i rd) =
     Inr (\<forall>j. mtl \<le> j \<and> j \<le> i \<longrightarrow> status (stats ! nat j) \<noteq> kSolverError)"
proof (induction mtl stats i rd rule: status_loop.induct)
  case (1 mtl stats i rd)
  show ?case
  proof (cases "i \<ge> mtl")
    case False
    then have "\<forall>j. mtl \<le> j \<and> j \<le> i \<longrightarrow> status (stats ! nat j) \<noteq> kSolverError"
      by auto
    with False show ?thesis by (subst status_loop.simps) simp
  next
    case True
    with 1(2,3) have at: "stats_at stats i = Inr (stats ! nat i)" by (simp add: stats_at_def)
    show ?thesis
    proof (cases "status (stats ! nat i) = kSolverError")
      case True
      with \<open>i \<ge> mtl\<close>
      have "\<not> (\<forall>j. mtl \<le> j \<and> j \<le> i \<longrightarrow> status (stats ! nat j) \<noteq> kSolverError)"
        by auto
      with True \<open>i \<ge> mtl\<close> at show ?thesis
        by (subst status_loop.simps) simp
    next
      case False
      have eq: "(\<forall>j. mtl \<le> j \<and> j \<le> i \<longrightarrow> status (stats ! nat j) \<noteq> kSolverError) =
            (\<forall>j. mtl \<le> j \<and> j \<le> i - 1 \<longrightarrow> status (stats ! nat j) \<noteq> kSolverError)"
      proof (intro iffI allI impI)
        fix j
        assume h: "\<forall>j. mtl \<le> j \<and> j \<le> i - 1 \<longrightarrow> status (stats ! nat j) \<noteq> kSolverError"
          and j: "mtl \<le> j \<and> j \<le> i"
        show "status (stats ! nat j) \<noteq> kSolverError"
        proof (cases "j = i")
          case True
          with False show ?thesis by simp
        next
          case False
          with j h show ?thesis by simp
        qed
      qed simp
      from 1(1) [OF True at False] 1(2,3)
      have "snd (status_loop mtl stats (i - 1) (rd @ [i])) =
        Inr (\<forall>j. mtl \<le> j \<and> j \<le> i - 1 \<longrightarrow> status (stats ! nat j) \<noteq> kSolverError)"
        by simp
      with False True at eq show ?thesis
        by (subst status_loop.simps) simp
    qed
  qed
qed

subsection \<open>The validator as a whole\<close>

lemma error_exceeded_pixels:
  "numPixels s \<noteq> 0 \<Longrightarrow> error_exceeded s t = (finalError s / real_of_int (numPixels s) > t)"
  by (simp add: error_exceeded_def)

lemma error_exceeded_no_pixels:
  "numPixels s = 0 \<Longrightarrow> error_exceeded s t = (finalError s > 0)"
  by (simp add: error_exceeded_def)

lemma checkResult_defined:
  assumes "0 \<le> maxTestLevel p" and "maxTestLevel p < int (length stats)"
  shows "checkResult p stats =
     Inr (\<not> error_exceeded (stats ! nat (maxTestLevel p)) (maxSolutionError p) \<and>
          (\<forall>j. maxTestLevel p \<le> j \<and> j < int (length stats) \<longrightarrow>
               status (stats ! nat j) \<noteq> kSolverError))"
proof -
  let ?mtl = "maxTestLevel p" and ?n = "int (length stats)"
  obtain rd r where ll: "log_loop ?mtl stats (?n - 1) [] [] = (rd, r)"
    by (cases "log_loop ?mtl stats (?n - 1) [] []")
  from log_loop_ok [of ?mtl "?n - 1" stats "[]" "[]"] assms ll
  obtain ss where r: "r = Inr ss" by auto
  from assms have at: "stats_at stats ?mtl = Inr (stats ! nat ?mtl)"
    by (simp add: stats_at_def)
  have bound: "(\<forall>j. ?mtl \<le> j \<and> j \<le> ?n - 1 \<longrightarrow> status (stats ! nat j) \<noteq> kSolverError) =
        (\<forall>j. ?mtl \<le> j \<and> j < ?n \<longrightarrow> status (stats ! nat j) \<noteq> kSolverError)"
    by auto
  from status_loop_result [of ?mtl "?n - 1" stats "rd @ [?mtl]"] assms bound
  have sl: "snd (status_loop ?mtl stats (?n - 1) (rd @ [?mtl])) =
      Inr (\<forall>j. ?mtl \<le> j \<and> j < ?n \<longrightarrow> status (stats ! nat j) \<noteq> kSolverError)"
    by simp
  show ?thesis
    using ll r at sl
    by (simp add: checkResult_def checkResult_reads_def)
qed

lemma checkResult_negative:
  assumes "maxTestLevel p < 0"
  shows "checkResult p stats = Inl IndexOutOfRange"
proof -
  let ?mtl = "maxTestLevel p" and ?n = "int (length stats)"
  obtain rd r where ll: "log_loop ?mtl stats (?n - 1) [] [] = (rd, r)"
    by (cases "log_loop ?mtl stats (?n - 1) [] []")
  from log_loop_negative [of ?mtl "?n - 1" stats "[]" "[]"] assms ll
  have "r = Inl IndexOutOfRange" by simp
  with ll show ?thesis
    by (simp add: checkResult_def checkResult_reads_def)
qed

lemma checkResult_short:
  assumes "int (length stats) \<le> maxTestLevel p"
  shows "checkResult_reads p stats = ([maxTestLevel p], Inl IndexOutOfRange)"
proof -
  let ?mtl = "maxTestLevel p" and ?n = "int (length stats)"
  from assms have ll: "log_loop ?mtl stats (?n - 1) [] [] = ([], Inr [])"
    by (subst log_loop.simps) simp
  from assms have at: "stats_at stats ?mtl = Inl IndexOutOfRange"
    by (simp add: stats_at_def)
  from ll at show ?thesis
    by (simp add: checkResult_reads_def)
qed

lemma checkResult_outside:
  assumes "\<not> (0 \<le> maxTestLevel p \<and> maxTestLevel p < int (length stats))"
  shows "checkResult p stats = Inl IndexOutOfRange"
proof (cases "maxTestLevel p < 0")
  case True
  then show ?thesis by (rule checkResult_negative)
next
  case False
  with assms have "int (length stats) \<le> maxTestLevel p" by simp
  then show ?thesis by (simp add: checkResult_def checkResult_short)
qed

lemma checkResult_reads_from_maxTestLevel:
  "set (fst (checkResult_reads p stats)) \<subseteq>
     {maxTestLevel p .. int (length stats) - 1} \<union> {maxTestLevel p}"
proof -
  let ?mtl = "maxTestLevel p" and ?n = "int (length stats)"
  obtain rd r where ll: "log_loop ?mtl stats (?n - 1) [] [] = (rd, r)"
    by (cases "log_loop ?mtl stats (?n - 1) [] []")
  from log_loop_reads [of ?mtl stats "?n - 1" "[]" "[]"] ll
  have rd: "set rd \<subseteq> {?mtl .. ?n - 1}" by simp
  from status_loop_reads [of ?mtl stats "?n - 1" "rd @ [?mtl]"] rd
  have sl: "set (fst (status_loop ?mtl stats (?n - 1) (rd @ [?mtl]))) \<subseteq>
      {?mtl .. ?n - 1} \<union> {?mtl}"
    by auto
  show ?thesis
  proof (cases r)
    case (Inl e)
    with ll rd show ?thesis by (auto simp: checkResult_reads_def)
  next
    case (Inr ss)
    show ?thesis
    proof (cases "stats_at stats ?mtl")
      case (Inl e)
      with ll Inr rd show ?thesis by (auto simp: checkResult_reads_def)
    next
      case at: (Inr finStats)
      with ll Inr rd sl show ?thesis
        by (auto simp: checkResult_reads_def)
    qed
  qed
qed

subsection \<open>The validator on the concrete instance\<close>

lemma demo_params_fields [simp]:
  "numPyramidLevels demo_params = 2"
  "minImageDimensionForPyramid demo_params = 40"
  "maxTestLevel demo_params = 0"
  "maxSolutionError demo_params = 10"
  "minTranslationMagToKeyFrame demo_params = 1"
  "minRotationMagToKeyFrame demo_params = 1"
  "goodPointThreshold demo_params = 1 / 2"
  "maxFractionOfGoodPointsToKeyFrame demo_params = 1 / 2"
  by (simp_all add: demo_params_def)

text \<open>The levels \<open>0\<close> and \<open>1\<close> are the levels of a vector with two entries.\<close>

lemma two_levels: "(\<forall>j::int. 0 \<le> j \<and> j < 2 \<longrightarrow> Q j) \<longleftrightarrow> Q 0 \<and> Q 1"
proof
  assume "\<forall>j::int. 0 \<le> j \<and> j < 2 \<longrightarrow> Q j"
  then show "Q 0 \<and> Q 1" by simp
next
  assume q: "Q 0 \<and> Q 1"
  show "\<forall>j::int. 0 \<le> j \<and> j < 2 \<longrightarrow> Q j"
  proof (intro allI impI)
    fix j :: int
    assume "0 \<le> j \<and> j < 2"
    then have "j = 0 \<or> j = 1" by arith
    with q show "Q j" by auto
  qed
qed

lemmas demo_stats = good_stats_def failed_stats_def no_pixel_stats_def void_stats_def

lemma checkResult_reads_demo:
  "checkResult_reads demo_params good_stats = ([1, 0, 0, 1, 0], Inr True)"
  "checkResult_reads demo_params failed_stats = ([1, 0, 0, 1], Inr False)"
  "checkResult_reads demo_params no_pixel_stats = ([1, 0, 0], Inr False)"
  "checkResult_reads demo_params void_stats = ([1, 0, 0, 1, 0], Inr True)"
  by (simp_all add: checkResult_reads_def demo_stats stats_at_def error_exceeded_def
      log_loop.simps status_loop.simps)

text \<open>
  Claim C5. For every statistics vector that has the level \<open>maxTestLevel\<close>, \<open>checkResult\<close>
  returns \<open>true\<close> if and only if the quotient of final error and pixel count at
  \<open>maxTestLevel\<close> does not exceed \<open>maxSolutionError\<close> and no level from the last index down
  to \<open>maxTestLevel\<close> has the status solver error; it returns \<open>false\<close> otherwise. Without
  pixels at that level the quotient is \<open>+inf\<close>, \<open>NaN\<close> or \<open>-inf\<close> and exceeds the threshold
  exactly if the error is positive. A vector without the level \<open>maxTestLevel\<close> is read
  outside its bounds. In every case no index below \<open>maxTestLevel\<close> is read.
\<close>

theorem checkResult_verdict:
  "(0 \<le> maxTestLevel p \<and> maxTestLevel p < int (length stats) \<longrightarrow>
      checkResult p stats =
        Inr (\<not> (if numPixels (stats ! nat (maxTestLevel p)) = 0
                then finalError (stats ! nat (maxTestLevel p)) > 0
                else finalError (stats ! nat (maxTestLevel p)) /
                       real_of_int (numPixels (stats ! nat (maxTestLevel p))) >
                     maxSolutionError p) \<and>
             (\<forall>j. maxTestLevel p \<le> j \<and> j < int (length stats) \<longrightarrow>
                  status (stats ! nat j) \<noteq> kSolverError))) \<and>
   (\<not> (0 \<le> maxTestLevel p \<and> maxTestLevel p < int (length stats)) \<longrightarrow>
      checkResult p stats = Inl IndexOutOfRange) \<and>
   (\<forall>i \<in> set (fst (checkResult_reads p stats)). maxTestLevel p \<le> i)"
proof (intro conjI impI)
  assume "0 \<le> maxTestLevel p \<and> maxTestLevel p < int (length stats)"
  then show "checkResult p stats =
        Inr (\<not> (if numPixels (stats ! nat (maxTestLevel p)) = 0
                then finalError (stats ! nat (maxTestLevel p)) > 0
                else finalError (stats ! nat (maxTestLevel p)) /
                       real_of_int (numPixels (stats ! nat (maxTestLevel p))) >
                     maxSolutionError p) \<and>
             (\<forall>j. maxTestLevel p \<le> j \<and> j < int (length stats) \<longrightarrow>
                  status (stats ! nat j) \<noteq> kSolverError))"
    by (simp add: checkResult_defined error_exceeded_def)
next
  assume "\<not> (0 \<le> maxTestLevel p \<and> maxTestLevel p < int (length stats))"
  then show "checkResult p stats = Inl IndexOutOfRange"
    by (rule checkResult_outside)
next
  from checkResult_reads_from_maxTestLevel [of p stats]
  show "\<forall>i \<in> set (fst (checkResult_reads p stats)). maxTestLevel p \<le> i"
    by auto
qed

text \<open>
  On the concrete instance (test level \<open>0\<close>, threshold \<open>10\<close>): both levels of
  \<open>good_stats\<close> pass (\<open>4 / 2 \<le> 10\<close>, no solver error); level 1 of \<open>failed_stats\<close> has a
  solver error; \<open>no_pixel_stats\<close> has the error \<open>1\<close> on no pixels, which exceeds;
  \<open>void_stats\<close> has the error \<open>0\<close> on no pixels, which does not; the empty vector has no
  level \<open>0\<close>.
\<close>

theorem checkResult_verdict_witness:
  "0 \<le> maxTestLevel demo_params \<and> maxTestLevel demo_params < int (length good_stats) \<and>
   checkResult demo_params good_stats = Inr True \<and>
   checkResult demo_params failed_stats = Inr False \<and>
   numPixels (no_pixel_stats ! nat (maxTestLevel demo_params)) = 0 \<and>
   checkResult demo_params no_pixel_stats = Inr False \<and>
   numPixels (void_stats ! nat (maxTestLevel demo_params)) = 0 \<and>
   checkResult demo_params void_stats = Inr True \<and>
   \<not> maxTestLevel demo_params < int (length ([] :: OptimizerStatistics list)) \<and>
   checkResult demo_params [] = Inl IndexOutOfRange \<and>
   list_all (\<lambda>i. maxTestLevel demo_params \<le> i) (fst (checkResult_reads demo_params good_stats))"
proof -
  have pre: "0 \<le> maxTestLevel demo_params \<and> maxTestLevel demo_params < int (length good_stats)"
    by (simp add: good_stats_def)
  have g: "checkResult demo_params good_stats = Inr True"
    using checkResult_verdict [of demo_params good_stats]
    by (simp add: good_stats_def two_levels)
  have f: "checkResult demo_params failed_stats = Inr False"
    using checkResult_verdict [of demo_params failed_stats]
    by (simp add: failed_stats_def two_levels)
  have n: "checkResult demo_params no_pixel_stats = Inr False"
    using checkResult_verdict [of demo_params no_pixel_stats]
    by (simp add: no_pixel_stats_def two_levels)
  have v: "checkResult demo_params void_stats = Inr True"
    using checkResult_verdict [of demo_params void_stats]
    by (simp add: void_stats_def two_levels)
  have e: "checkResult demo_params [] = Inl IndexOutOfRange"
    using checkResult_verdict [of demo_params "[]"]
    by simp
  from checkResult_verdict [of demo_params good_stats]
  have "\<forall>i \<in> set (fst (checkResult_reads demo_params good_stats)). maxTestLevel demo_params \<le> i"
    by blast
  then have rd: "list_all (\<lambda>i. maxTestLevel demo_params \<le> i)
      (fst (checkResult_reads demo_params good_stats))"
    by (simp add: list_all_iff)
  have z: "numPixels (no_pixel_stats ! nat (maxTestLevel demo_params)) = 0"
    "numPixels (void_stats ! nat (maxTestLevel demo_params)) = 0"
    "\<not> maxTestLevel demo_params < int (length ([] :: OptimizerStatistics list))"
    by (simp_all add: no_pixel_stats_def void_stats_def)
  from pre g f n v e rd z show ?thesis
    by blast
qed

text \<open>
  Claim C10. \<open>checkResult\<close> reads the vector only at indices of
  \<open>[maxTestLevel, stats.size() - 1]\<close> and at \<open>maxTestLevel\<close> itself, and divides by the
  pixel count at \<open>maxTestLevel\<close>, with no guard. If \<open>0 \<le> maxTestLevel < stats.size()\<close>,
  every read is inside the vector, at an index of \<open>[maxTestLevel, stats.size() - 1]\<close>, and
  the call returns a verdict; if moreover that pixel count is not zero, the quotient is
  a number and the verdict is the one of the comparison of that number with the
  threshold (and of the status scan). If the vector has at most \<open>maxTestLevel\<close>
  entries, the one read is the one of \<open>stats[maxTestLevel]\<close>, outside the vector. With
  a pixel count of zero the division is made all the same, and the verdict is the one
  of the sign of the error.
\<close>

theorem checkResult_accesses:
  "set (fst (checkResult_reads p stats)) \<subseteq>
     {maxTestLevel p .. int (length stats) - 1} \<union> {maxTestLevel p} \<and>
   (0 \<le> maxTestLevel p \<and> maxTestLevel p < int (length stats) \<longrightarrow>
      (\<exists>b. checkResult p stats = Inr b) \<and>
      set (fst (checkResult_reads p stats)) \<subseteq> {maxTestLevel p .. int (length stats) - 1} \<and>
      (\<forall>i \<in> set (fst (checkResult_reads p stats)). 0 \<le> i \<and> i < int (length stats))) \<and>
   (0 \<le> maxTestLevel p \<and> maxTestLevel p < int (length stats) \<and>
    numPixels (stats ! nat (maxTestLevel p)) \<noteq> 0 \<longrightarrow>
      checkResult p stats =
        Inr (\<not> finalError (stats ! nat (maxTestLevel p)) /
                 real_of_int (numPixels (stats ! nat (maxTestLevel p))) > maxSolutionError p \<and>
             (\<forall>j. maxTestLevel p \<le> j \<and> j < int (length stats) \<longrightarrow>
                  status (stats ! nat j) \<noteq> kSolverError))) \<and>
   (int (length stats) \<le> maxTestLevel p \<longrightarrow>
      checkResult_reads p stats = ([maxTestLevel p], Inl IndexOutOfRange) \<and>
      stats_at stats (maxTestLevel p) = Inl IndexOutOfRange) \<and>
   (0 \<le> maxTestLevel p \<and> maxTestLevel p < int (length stats) \<and>
    numPixels (stats ! nat (maxTestLevel p)) = 0 \<longrightarrow>
      checkResult p stats =
        Inr (\<not> finalError (stats ! nat (maxTestLevel p)) > 0 \<and>
             (\<forall>j. maxTestLevel p \<le> j \<and> j < int (length stats) \<longrightarrow>
                  status (stats ! nat j) \<noteq> kSolverError)))"
proof (intro conjI impI)
  show "set (fst (checkResult_reads p stats)) \<subseteq>
     {maxTestLevel p .. int (length stats) - 1} \<union> {maxTestLevel p}"
    by (rule checkResult_reads_from_maxTestLevel)
next
  assume pre: "0 \<le> maxTestLevel p \<and> maxTestLevel p < int (length stats)"
  then show "\<exists>b. checkResult p stats = Inr b"
    by (simp add: checkResult_defined)
  from pre checkResult_reads_from_maxTestLevel [of p stats]
  show sub: "set (fst (checkResult_reads p stats)) \<subseteq> {maxTestLevel p .. int (length stats) - 1}"
    by auto
  from pre sub show "\<forall>i \<in> set (fst (checkResult_reads p stats)). 0 \<le> i \<and> i < int (length stats)"
    by auto
next
  assume "0 \<le> maxTestLevel p \<and> maxTestLevel p < int (length stats) \<and>
    numPixels (stats ! nat (maxTestLevel p)) \<noteq> 0"
  then show "checkResult p stats =
        Inr (\<not> finalError (stats ! nat (maxTestLevel p)) /
                 real_of_int (numPixels (stats ! nat (maxTestLevel p))) > maxSolutionError p \<and>
             (\<forall>j. maxTestLevel p \<le> j \<and> j < int (length stats) \<longrightarrow>
                  status (stats ! nat j) \<noteq> kSolverError))"
    by (simp add: checkResult_defined error_exceeded_pixels)
next
  assume "int (length stats) \<le> maxTestLevel p"
  then show "checkResult_reads p stats = ([maxTestLevel p], Inl IndexOutOfRange)"
    and "stats_at stats (maxTestLevel p) = Inl IndexOutOfRange"
    by (simp_all add: checkResult_short stats_at_def)
next
  assume "0 \<le> maxTestLevel p \<and> maxTestLevel p < int (length stats) \<and>
    numPixels (stats ! nat (maxTestLevel p)) = 0"
  then show "checkResult p stats =
        Inr (\<not> finalError (stats ! nat (maxTestLevel p)) > 0 \<and>
             (\<forall>j. maxTestLevel p \<le> j \<and> j < int (length stats) \<longrightarrow>
                  status (stats ! nat j) \<noteq> kSolverError))"
    by (simp add: checkResult_defined error_exceeded_no_pixels)
qed

text \<open>
  On the concrete instance: the reads on \<open>good_stats\<close> and on \<open>void_stats\<close> (no pixels
  at level \<open>0\<close>) are inside the vector and both get a verdict; the empty vector is read
  at index \<open>0\<close>; \<open>no_pixel_stats\<close> is rejected by the division by zero.
\<close>

theorem checkResult_accesses_witness:
  "0 \<le> maxTestLevel demo_params \<and> maxTestLevel demo_params < int (length good_stats) \<and>
   numPixels (good_stats ! nat (maxTestLevel demo_params)) \<noteq> 0 \<and>
   checkResult demo_params good_stats = Inr True \<and>
   list_all (\<lambda>i. 0 \<le> i \<and> i < int (length good_stats))
     (fst (checkResult_reads demo_params good_stats)) \<and>
   int (length ([] :: OptimizerStatistics list)) \<le> maxTestLevel demo_params \<and>
   checkResult_reads demo_params [] = ([0], Inl IndexOutOfRange) \<and>
   maxTestLevel demo_params < int (length no_pixel_stats) \<and>
   numPixels (no_pixel_stats ! nat (maxTestLevel demo_params)) = 0 \<and>
   checkResult demo_params no_pixel_stats = Inr False \<and>
   maxTestLevel demo_params < int (length void_stats) \<and>
   numPixels (void_stats ! nat (maxTestLevel demo_params)) = 0 \<and>
   checkResult demo_params void_stats = Inr True \<and>
   list_all (\<lambda>i. 0 \<le> i \<and> i < int (length void_stats))
     (fst (checkResult_reads demo_params void_stats))"
proof -
  have pre: "0 \<le> maxTestLevel demo_params \<and> maxTestLevel demo_params < int (length good_stats) \<and>
      numPixels (good_stats ! nat (maxTestLevel demo_params)) \<noteq> 0"
    by (simp add: good_stats_def)
  have short: "int (length ([] :: OptimizerStatistics list)) \<le> maxTestLevel demo_params"
    by simp
  have zn: "0 \<le> maxTestLevel demo_params \<and> maxTestLevel demo_params < int (length no_pixel_stats) \<and>
      numPixels (no_pixel_stats ! nat (maxTestLevel demo_params)) = 0"
    by (simp add: no_pixel_stats_def)
  have zv: "0 \<le> maxTestLevel demo_params \<and> maxTestLevel demo_params < int (length void_stats) \<and>
      numPixels (void_stats ! nat (maxTestLevel demo_params)) = 0"
    by (simp add: void_stats_def)
  have g: "checkResult demo_params good_stats = Inr True"
    using checkResult_accesses [of demo_params good_stats]
    by (simp add: good_stats_def two_levels)
  from checkResult_accesses [of demo_params good_stats] pre
  have "\<forall>i \<in> set (fst (checkResult_reads demo_params good_stats)).
        0 \<le> i \<and> i < int (length good_stats)"
    by blast
  then have rd: "list_all (\<lambda>i. 0 \<le> i \<and> i < int (length good_stats))
      (fst (checkResult_reads demo_params good_stats))"
    by (simp add: list_all_iff)
  from checkResult_accesses [of demo_params "[]"] short
  have "checkResult_reads demo_params [] = ([maxTestLevel demo_params], Inl IndexOutOfRange)"
    by blast
  then have s: "checkResult_reads demo_params [] = ([0], Inl IndexOutOfRange)"
    by simp
  have n: "checkResult demo_params no_pixel_stats = Inr False"
    using checkResult_accesses [of demo_params no_pixel_stats]
    by (simp add: no_pixel_stats_def two_levels)
  have v: "checkResult demo_params void_stats = Inr True"
    using checkResult_accesses [of demo_params void_stats]
    by (simp add: void_stats_def two_levels)
  from checkResult_accesses [of demo_params void_stats] zv
  have "\<forall>i \<in> set (fst (checkResult_reads demo_params void_stats)).
        0 \<le> i \<and> i < int (length void_stats)"
    by blast
  then have rv: "list_all (\<lambda>i. 0 \<le> i \<and> i < int (length void_stats))
      (fst (checkResult_reads demo_params void_stats))"
    by (simp add: list_all_iff)
  from pre g rd short s zn n zv v rv show ?thesis
    by blast
qed

text \<open>The verdicts on the concrete instance, for the evaluation of \<open>addFrame\<close>.\<close>

lemma checkResult_demo [simp]:
  "checkResult demo_params good_stats = Inr True"
  "checkResult demo_params failed_stats = Inr False"
  "checkResult demo_params no_pixel_stats = Inr False"
  "checkResult demo_params void_stats = Inr True"
  by (simp_all add: checkResult_def checkResult_reads_demo)

section \<open>Properties of \<open>addFrame\<close>\<close>

subsection \<open>Frames\<close>

lemma storage_frame_ops [simp]:
  "storage (setData f I D) = storage f"
  "storage (setTemplate f) = storage f"
  "storage (clear f) = storage f"
  by (simp_all add: setData_def setTemplate_def clear_def split: FrameState.split)

lemma frame_state_ops [simp]:
  "frame_state (setData f I D) = Raw"
  "frame_state (clear f) = Empty"
  "frame_state (setTemplate f) = (if frame_state f = Empty then Empty else Templated)"
  by (simp_all add: setData_def setTemplate_def clear_def split: FrameState.split)

lemma numLevels_frame_ops [simp]:
  "numLevels (setData f I D) = numLevels f"
  "numLevels (setTemplate f) = numLevels f"
  by (simp_all add: setData_def setTemplate_def split: FrameState.split)

subsection \<open>The branches of \<open>addFrame\<close>\<close>

text \<open>The point cloud depends on the parameters, the reference frame and the estimator only.\<close>

lemma getPointCloudFromRefFrame_cong:
  "params s = params t \<Longrightarrow> ref_frame s = ref_frame t \<Longrightarrow> vo_pose s = vo_pose t \<Longrightarrow>
   getPointCloudFromRefFrame env s = getPointCloudFromRefFrame env t"
  by (simp add: getPointCloudFromRefFrame_def pointsAtLevel_def Let_def)

lemma addFrame_first:
  assumes "\<not> hasTemplate (ref_frame impl)"
  shows "addFrame_Impl env impl I D guess =
     (case FirstFrameResult env (int (numLevels (setTemplate (setData (cur_frame impl) I D)))) of
        Inl e \<Rightarrow> Inl e
      | Inr r \<Rightarrow>
          Inr (r, impl\<lparr>ref_frame := setTemplate (setData (cur_frame impl) I D),
                      cur_frame := ref_frame impl,
                      trajectory := trajectory impl @ [T_kf impl]\<rparr>))"
  using assms by (simp add: addFrame_Impl_def Let_def split: sum.split)

lemma addFrame_error:
  assumes "hasTemplate (ref_frame impl)"
    and "estimatePose env (vo_pose impl) (ref_frame impl) (setData (cur_frame impl) I D)
           (T_kf impl * guess) = (stats, T_est, e)"
    and "checkResult (params impl) stats = Inl err"
  shows "addFrame_Impl env impl I D guess = Inl err"
  using assms by (simp add: addFrame_Impl_def call_estimatePose_def Let_def)

lemma addFrame_tracking:
  assumes "hasTemplate (ref_frame impl)"
    and "estimatePose env (vo_pose impl) (ref_frame impl) (setData (cur_frame impl) I D)
           (T_kf impl * guess) = (stats, T_est, e)"
    and "checkResult (params impl) stats = Inr True"
    and "shouldKeyFrame env (params impl) e T_est = kNoKeyFraming"
  shows "addFrame_Impl env impl I D guess =
     Inr ((default_Result env)
            \<lparr>optimizerStatistics := stats, success := True, keyFramingReason := kNoKeyFraming,
             isKeyFrame := False, displacement := T_est * inverse (T_kf impl)\<rparr>,
          impl\<lparr>cur_frame := prev_frame impl, prev_frame := setData (cur_frame impl) I D,
               vo_pose := e, T_kf := T_est,
               call_log := call_log impl @
                 [Call_estimatePose (ref_frame impl) (setData (cur_frame impl) I D)
                    (T_kf impl * guess),
                  Call_shouldKeyFrame T_est]\<rparr>)"
  using assms
  by (simp add: addFrame_Impl_def call_estimatePose_def call_shouldKeyFrame_def Let_def)

text \<open>
  A reason other than \<open>kNoKeyFraming\<close> after the first estimate (a trigger of
  \<open>shouldKeyFrame\<close>, or \<open>kEstimationFailed\<close> after a rejection) leads into the keyframe
  branch.
\<close>

lemma addFrame_keyframe:
  assumes "hasTemplate (ref_frame impl)"
    and "estimatePose env (vo_pose impl) (ref_frame impl) (setData (cur_frame impl) I D)
           (T_kf impl * guess) = (stats, T_est, e)"
    and "checkResult (params impl) stats = Inr ok"
    and "reason = (if ok then shouldKeyFrame env (params impl) e T_est else kEstimationFailed)"
    and "reason \<noteq> kNoKeyFraming"
  shows "addFrame_Impl env impl I D guess =
     keyframe_transition env
       (impl\<lparr>cur_frame := setData (cur_frame impl) I D, vo_pose := e,
             call_log := call_log impl @
               Call_estimatePose (ref_frame impl) (setData (cur_frame impl) I D)
                 (T_kf impl * guess) #
               (if ok then [Call_shouldKeyFrame T_est] else [])\<rparr>)
       ((default_Result env)
          \<lparr>optimizerStatistics := stats, success := ok, keyFramingReason := reason,
           isKeyFrame := True\<rparr>)
       guess"
proof (cases ok)
  case True
  with assms show ?thesis
    by (simp add: addFrame_Impl_def call_estimatePose_def call_shouldKeyFrame_def Let_def)
next
  case False
  with assms show ?thesis
    by (simp add: addFrame_Impl_def call_estimatePose_def Let_def)
qed

lemma keyframe_transition_no_previous:
  assumes "empty_frame (prev_frame s)"
  shows "keyframe_transition env s ret guess =
     Inr (ret\<lparr>pointCloud := getPointCloudFromRefFrame env s, success := False\<rparr>,
          s\<lparr>T_kf := 1, cur_frame := ref_frame s, ref_frame := setTemplate (cur_frame s)\<rparr>)"
proof -
  have "getPointCloudFromRefFrame env (s\<lparr>T_kf := 1\<rparr>) = getPointCloudFromRefFrame env s"
    by (rule getPointCloudFromRefFrame_cong) simp_all
  with assms show ?thesis
    by (simp add: keyframe_transition_def Let_def)
qed

lemma keyframe_transition_previous:
  assumes "\<not> empty_frame (prev_frame s)"
    and "estimatePose env (vo_pose s) (setTemplate (prev_frame s)) (cur_frame s) guess =
           (stats2, T_est2, e2)"
    and "checkResult (params s) stats2 = Inr ok2"
    and "reason2 = (if ok2 then shouldKeyFrame env (params s) e2 T_est2 else kEstimationFailed)"
  shows "keyframe_transition env s ret guess =
     Inr (ret\<lparr>pointCloud := getPointCloudFromRefFrame env s, optimizerStatistics := stats2,
              displacement := T_est2, keyFramingReason := reason2,
              success := (ok2 \<and> reason2 = kNoKeyFraming)\<rparr>,
          s\<lparr>ref_frame := setTemplate (prev_frame s), prev_frame := clear (ref_frame s),
            vo_pose := e2, T_kf := T_est2,
            call_log := call_log s @
              Call_estimatePose (setTemplate (prev_frame s)) (cur_frame s) guess #
              (if ok2 then [Call_shouldKeyFrame T_est2] else [])\<rparr>)"
proof -
  have pc: "getPointCloudFromRefFrame env (s\<lparr>T_kf := 1\<rparr>) = getPointCloudFromRefFrame env s"
    by (rule getPointCloudFromRefFrame_cong) simp_all
  show ?thesis
  proof (cases ok2)
    case False
    with assms pc show ?thesis
      by (simp add: keyframe_transition_def call_estimatePose_def Let_def)
  next
    case True
    show ?thesis
    proof (cases "shouldKeyFrame env (params s) e2 T_est2 = kNoKeyFraming")
      case k: True
      with True assms pc show ?thesis
        by (simp add: keyframe_transition_def call_estimatePose_def call_shouldKeyFrame_def Let_def)
    next
      case k: False
      with True assms pc show ?thesis
        by (simp add: keyframe_transition_def call_estimatePose_def call_shouldKeyFrame_def Let_def)
    qed
  qed
qed

lemma keyframe_transition_error:
  assumes "\<not> empty_frame (prev_frame s)"
    and "estimatePose env (vo_pose s) (setTemplate (prev_frame s)) (cur_frame s) guess =
           (stats2, T_est2, e2)"
    and "checkResult (params s) stats2 = Inl err"
  shows "keyframe_transition env s ret guess = Inl err"
  using assms by (simp add: keyframe_transition_def call_estimatePose_def Let_def)

text \<open>The keyframe branch without a previous candidate, as one equation.\<close>

lemma addFrame_double:
  assumes "hasTemplate (ref_frame impl)"
    and "estimatePose env (vo_pose impl) (ref_frame impl) (setData (cur_frame impl) I D)
           (T_kf impl * guess) = (stats, T_est, e)"
    and "checkResult (params impl) stats = Inr ok"
    and "reason = (if ok then shouldKeyFrame env (params impl) e T_est else kEstimationFailed)"
    and "reason \<noteq> kNoKeyFraming"
    and "empty_frame (prev_frame impl)"
  shows "addFrame_Impl env impl I D guess =
     Inr ((default_Result env)
            \<lparr>optimizerStatistics := stats, success := False, keyFramingReason := reason,
             isKeyFrame := True,
             pointCloud := getPointCloudFromRefFrame env (impl\<lparr>vo_pose := e\<rparr>)\<rparr>,
          impl\<lparr>ref_frame := setTemplate (setData (cur_frame impl) I D),
               cur_frame := ref_frame impl,
               vo_pose := e, T_kf := 1,
               call_log := call_log impl @
                 Call_estimatePose (ref_frame impl) (setData (cur_frame impl) I D)
                   (T_kf impl * guess) #
                 (if ok then [Call_shouldKeyFrame T_est] else [])\<rparr>)"
proof -
  let ?s = "impl\<lparr>cur_frame := setData (cur_frame impl) I D, vo_pose := e,
             call_log := call_log impl @
               Call_estimatePose (ref_frame impl) (setData (cur_frame impl) I D)
                 (T_kf impl * guess) #
               (if ok then [Call_shouldKeyFrame T_est] else [])\<rparr>"
  have pc: "getPointCloudFromRefFrame env ?s = getPointCloudFromRefFrame env (impl\<lparr>vo_pose := e\<rparr>)"
    by (rule getPointCloudFromRefFrame_cong) simp_all
  from assms(6) show ?thesis
    unfolding addFrame_keyframe [OF assms(1-5)]
    by (simp add: keyframe_transition_no_previous pc)
qed

text \<open>The keyframe branch with a previous candidate, as one equation.\<close>

lemma addFrame_backup:
  assumes "hasTemplate (ref_frame impl)"
    and "estimatePose env (vo_pose impl) (ref_frame impl) (setData (cur_frame impl) I D)
           (T_kf impl * guess) = (stats, T_est, e)"
    and "checkResult (params impl) stats = Inr ok"
    and "reason = (if ok then shouldKeyFrame env (params impl) e T_est else kEstimationFailed)"
    and "reason \<noteq> kNoKeyFraming"
    and "\<not> empty_frame (prev_frame impl)"
    and "estimatePose env e (setTemplate (prev_frame impl)) (setData (cur_frame impl) I D) guess =
           (stats2, T_est2, e2)"
    and "checkResult (params impl) stats2 = Inr ok2"
    and "reason2 = (if ok2 then shouldKeyFrame env (params impl) e2 T_est2 else kEstimationFailed)"
  shows "addFrame_Impl env impl I D guess =
     Inr ((default_Result env)
            \<lparr>optimizerStatistics := stats2, success := (ok2 \<and> reason2 = kNoKeyFraming),
             keyFramingReason := reason2, isKeyFrame := True, displacement := T_est2,
             pointCloud := getPointCloudFromRefFrame env (impl\<lparr>vo_pose := e\<rparr>)\<rparr>,
          impl\<lparr>ref_frame := setTemplate (prev_frame impl),
               prev_frame := clear (ref_frame impl),
               cur_frame := setData (cur_frame impl) I D,
               vo_pose := e2, T_kf := T_est2,
               call_log := call_log impl @
                 Call_estimatePose (ref_frame impl) (setData (cur_frame impl) I D)
                   (T_kf impl * guess) #
                 (if ok then [Call_shouldKeyFrame T_est] else []) @
                 Call_estimatePose (setTemplate (prev_frame impl))
                   (setData (cur_frame impl) I D) guess #
                 (if ok2 then [Call_shouldKeyFrame T_est2] else [])\<rparr>)"
proof -
  let ?s = "impl\<lparr>cur_frame := setData (cur_frame impl) I D, vo_pose := e,
             call_log := call_log impl @
               Call_estimatePose (ref_frame impl) (setData (cur_frame impl) I D)
                 (T_kf impl * guess) #
               (if ok then [Call_shouldKeyFrame T_est] else [])\<rparr>"
  let ?r = "(default_Result env)
          \<lparr>optimizerStatistics := stats, success := ok, keyFramingReason := reason,
           isKeyFrame := True\<rparr>"
  have pc: "getPointCloudFromRefFrame env ?s = getPointCloudFromRefFrame env (impl\<lparr>vo_pose := e\<rparr>)"
    by (rule getPointCloudFromRefFrame_cong) simp_all
  have kt: "keyframe_transition env ?s ?r guess =
     Inr (?r\<lparr>pointCloud := getPointCloudFromRefFrame env ?s, optimizerStatistics := stats2,
              displacement := T_est2, keyFramingReason := reason2,
              success := (ok2 \<and> reason2 = kNoKeyFraming)\<rparr>,
          ?s\<lparr>ref_frame := setTemplate (prev_frame ?s), prev_frame := clear (ref_frame ?s),
            vo_pose := e2, T_kf := T_est2,
            call_log := call_log ?s @
              Call_estimatePose (setTemplate (prev_frame ?s)) (cur_frame ?s) guess #
              (if ok2 then [Call_shouldKeyFrame T_est2] else [])\<rparr>)"
    by (rule keyframe_transition_previous) (use assms(6-9) in simp_all)
  show ?thesis
    unfolding addFrame_keyframe [OF assms(1-5)] kt pc by simp
qed

lemma addFrame_backup_error:
  assumes "hasTemplate (ref_frame impl)"
    and "estimatePose env (vo_pose impl) (ref_frame impl) (setData (cur_frame impl) I D)
           (T_kf impl * guess) = (stats, T_est, e)"
    and "checkResult (params impl) stats = Inr ok"
    and "reason = (if ok then shouldKeyFrame env (params impl) e T_est else kEstimationFailed)"
    and "reason \<noteq> kNoKeyFraming"
    and "\<not> empty_frame (prev_frame impl)"
    and "estimatePose env e (setTemplate (prev_frame impl)) (setData (cur_frame impl) I D) guess =
           (stats2, T_est2, e2)"
    and "checkResult (params impl) stats2 = Inl err"
  shows "addFrame_Impl env impl I D guess = Inl err"
  unfolding addFrame_keyframe [OF assms(1-5)]
  by (rule keyframe_transition_error) (use assms(6-8) in simp_all)

subsection \<open>The fresh instance\<close>

lemma Impl_new_fresh:
  assumes "Impl_new env s p = Inr impl"
  shows "frame_state (ref_frame impl) = Empty \<and> frame_state (cur_frame impl) = Empty \<and>
     frame_state (prev_frame impl) = Empty \<and>
     storage (ref_frame impl) = 0 \<and> storage (cur_frame impl) = 1 \<and>
     storage (prev_frame impl) = 2 \<and>
     numLevels (ref_frame impl) = nat (numPyramidLevels (params impl)) \<and>
     numLevels (cur_frame impl) = nat (numPyramidLevels (params impl)) \<and>
     numLevels (prev_frame impl) = nat (numPyramidLevels (params impl)) \<and>
     T_kf impl = 1 \<and> trajectory impl = [] \<and> call_log impl = []"
  using assms by (auto simp: Impl_new_def Let_def new_frame_def split: if_splits)

lemma length_resize: "length (resize xs n d) = n"
  by (simp add: resize_def)

subsection \<open>Evaluation on the concrete instance\<close>

lemmas demo_simps =
  scripted_def scripted_estimatePose_def demo_size_def demo_Mat_def blank_Mat_def
  demo_estimator_def demo_env_def demo_tracking_def
  setData_def hasTemplate_def setTemplate_def clear_def empty_frame_def new_frame_def

lemmas run_simps =
  Impl_new_def FirstFrameResult_def resize_def pointsAtLevel_def getPointCloudFromRefFrame_def
  call_estimatePose_def call_shouldKeyFrame_def keyframe_transition_def addFrame_Impl_def
  shouldKeyFrame_def sq_def Let_def

lemma shouldKeyFrame_demo_near:
  "shouldKeyFrame demo_env demo_params (demo_estimator os) (3 / 4) = kNoKeyFraming"
  by (simp add: shouldKeyFrame_def sq_def demo_simps Let_def)

lemma shouldKeyFrame_demo_far:
  "shouldKeyFrame demo_env demo_params (demo_estimator os) 5 = kLargeTranslation"
  by (simp add: shouldKeyFrame_def sq_def demo_simps Let_def)

lemma demo_tracking_fields [simp]:
  "params (demo_tracking pst os) = demo_params"
  "vo_pose (demo_tracking pst os) = demo_estimator os"
  "T_kf (demo_tracking pst os) = 3 / 2"
  "call_log (demo_tracking pst os) = []"
  "frame_state (ref_frame (demo_tracking pst os)) = Templated"
  "frame_state (cur_frame (demo_tracking pst os)) = Empty"
  "frame_state (prev_frame (demo_tracking pst os)) = pst"
  by (simp_all add: demo_tracking_def)

lemma demo_estimatePose:
  "estimatePose demo_env (demo_estimator ((st, T) # os)) rf cf T_guess =
     (st, T, demo_estimator os)"
  by (simp add: demo_simps)

subsection \<open>The first frame\<close>

text \<open>
  Claim C7. The first \<open>addFrame\<close> call on a fresh instance returns \<open>success = false\<close>,
  \<open>isKeyFrame = true\<close>, the reason first-frame, identity displacement and covariance,
  as many optimizer statistics as the frame has pyramid levels (the level count of the
  parameters) and no point cloud; the current frame is swapped into the reference slot
  and promoted to template, the old reference frame is in the current slot, the
  identity pose is the one entry of the trajectory, and no estimate was made. The
  public entry point hands a non-empty image and disparity over to this call.
\<close>

theorem first_addFrame:
  assumes "Impl_new env s p = Inr impl"
  shows "\<exists>ret impl'.
      addFrame_Impl env impl I D guess = Inr (ret, impl') \<and>
      \<not> success ret \<and> isKeyFrame ret \<and> keyFramingReason ret = kFirstFrame \<and>
      displacement ret = 1 \<and> covariance ret = 1 \<and>
      length (optimizerStatistics ret) = numLevels (ref_frame impl') \<and>
      numLevels (ref_frame impl') = nat (numPyramidLevels (params impl)) \<and>
      pointCloud ret = None \<and>
      ref_frame impl' = setTemplate (setData (cur_frame impl) I D) \<and>
      hasTemplate (ref_frame impl') \<and>
      cur_frame impl' = ref_frame impl \<and>
      trajectory impl' = [1] \<and>
      call_log impl' = [] \<and>
      (\<not> mat_empty I \<and> \<not> mat_empty D \<longrightarrow>
         VisualOdometry_addFrame env impl I D guess = addFrame_Impl env impl I D guess)"
proof -
  note f = Impl_new_fresh [OF assms]
  from f have nt: "\<not> hasTemplate (ref_frame impl)"
    by (simp add: hasTemplate_def)
  have ht: "hasTemplate (setTemplate (setData (cur_frame impl) I D))"
    by (simp add: hasTemplate_def)
  show ?thesis
    using f ht
    by (simp add: addFrame_first [OF nt] FirstFrameResult_def Let_def length_resize
        VisualOdometry_addFrame_def)
qed

theorem first_addFrame_witness:
  "\<exists>impl ret impl'.
     Impl_new demo_env demo_size demo_params = Inr impl \<and>
     addFrame_Impl demo_env impl demo_Mat demo_Mat 1 = Inr (ret, impl') \<and>
     \<not> success ret \<and> isKeyFrame ret \<and> keyFramingReason ret = kFirstFrame \<and>
     displacement ret = 1 \<and> covariance ret = 1 \<and>
     length (optimizerStatistics ret) = 2 \<and> pointCloud ret = None \<and>
     hasTemplate (ref_frame impl') \<and> trajectory impl' = [1] \<and>
     \<not> mat_empty demo_Mat \<and>
     VisualOdometry_addFrame demo_env impl demo_Mat demo_Mat 1 = Inr (ret, impl')"
proof -
  obtain impl :: "(real, ScriptedEstimator) Impl" where
    h: "Impl_new demo_env demo_size demo_params = Inr impl"
    by (simp add: Impl_new_def Let_def)
  then have np: "numPyramidLevels (params impl) = 2"
    by (auto simp: Impl_new_def Let_def)
  have ne: "\<not> mat_empty demo_Mat"
    by (simp add: mat_empty_def demo_Mat_def)
  from first_addFrame [where I = demo_Mat and D = demo_Mat and guess = 1, OF h]
  obtain ret :: "(real, real) Result" and impl' where
    c: "addFrame_Impl demo_env impl demo_Mat demo_Mat 1 = Inr (ret, impl')"
      "\<not> success ret" "isKeyFrame ret" "keyFramingReason ret = kFirstFrame"
      "displacement ret = 1" "covariance ret = 1"
      "length (optimizerStatistics ret) = numLevels (ref_frame impl')"
      "numLevels (ref_frame impl') = nat (numPyramidLevels (params impl))"
      "pointCloud ret = None" "hasTemplate (ref_frame impl')" "trajectory impl' = [1]"
      "\<not> mat_empty demo_Mat \<and> \<not> mat_empty demo_Mat \<longrightarrow>
         VisualOdometry_addFrame demo_env impl demo_Mat demo_Mat 1 =
         addFrame_Impl demo_env impl demo_Mat demo_Mat 1"
    by blast
  from c(7,8) np have n: "length (optimizerStatistics ret) = 2"
    by simp
  from c(12) ne c(1)
  have v: "VisualOdometry_addFrame demo_env impl demo_Mat demo_Mat 1 = Inr (ret, impl')"
    by simp
  from h c(1-6) n c(9-11) ne v show ?thesis
    by blast
qed

subsection \<open>An accepted estimate without keyframe\<close>

text \<open>
  Claim C4. When the reference slot is templated, the validator accepts the estimate
  \<open>T_est\<close> of the current frame against it (seeded with \<open>T_kf * guess\<close>) and
  \<open>shouldKeyFrame\<close> answers no-keyframe, then the returned displacement is
  \<open>T_est * inverse T_kf\<close> for the accumulated pose \<open>T_kf\<close> from before the call, the
  stored accumulated pose becomes \<open>T_est\<close>, and the current and the previous slot are
  swapped: the current frame is the new previous candidate.
\<close>

theorem addFrame_accepted_no_keyframe:
  assumes "hasTemplate (ref_frame impl)"
    and "estimatePose env (vo_pose impl) (ref_frame impl) (setData (cur_frame impl) I D)
           (T_kf impl * guess) = (stats, T_est, e)"
    and "checkResult (params impl) stats = Inr True"
    and "shouldKeyFrame env (params impl) e T_est = kNoKeyFraming"
  shows "\<exists>ret impl'.
      addFrame_Impl env impl I D guess = Inr (ret, impl') \<and>
      displacement ret = T_est * inverse (T_kf impl) \<and>
      T_kf impl' = T_est \<and>
      prev_frame impl' = setData (cur_frame impl) I D \<and>
      cur_frame impl' = prev_frame impl \<and>
      ref_frame impl' = ref_frame impl \<and>
      success ret \<and> \<not> isKeyFrame ret \<and> keyFramingReason ret = kNoKeyFraming"
  by (simp add: addFrame_tracking [OF assms])

text \<open>
  On the concrete instance: with \<open>T_kf = 3 / 2\<close> and \<open>T_est = 3 / 4\<close> the displacement is
  \<open>3 / 4 * inverse (3 / 2) = 1 / 2\<close>; once with pixels at every level, once with an
  estimate without error and without pixels at the test level, which the validator
  accepts.
\<close>

theorem addFrame_accepted_no_keyframe_witness:
  "hasTemplate (ref_frame (demo_tracking Empty [(good_stats, 3 / 4)])) \<and>
   checkResult demo_params good_stats = Inr True \<and>
   shouldKeyFrame demo_env demo_params (demo_estimator []) (3 / 4) = kNoKeyFraming \<and>
   (\<exists>ret impl'.
      addFrame_Impl demo_env (demo_tracking Empty [(good_stats, 3 / 4)]) demo_Mat demo_Mat 1 =
        Inr (ret, impl') \<and>
      displacement ret = 1 / 2 \<and> T_kf impl' = 3 / 4 \<and>
      frame_state (prev_frame impl') = Raw \<and> frame_state (cur_frame impl') = Empty) \<and>
   checkResult demo_params void_stats = Inr True \<and>
   (\<exists>ret impl'.
      addFrame_Impl demo_env (demo_tracking Empty [(void_stats, 3 / 4)]) demo_Mat demo_Mat 1 =
        Inr (ret, impl') \<and>
      displacement ret = 1 / 2 \<and> T_kf impl' = 3 / 4 \<and>
      frame_state (prev_frame impl') = Raw \<and> frame_state (cur_frame impl') = Empty)"
proof -
  have h1: "hasTemplate (ref_frame (demo_tracking Empty os))" for os
    by (simp add: hasTemplate_def)
  have W: "\<exists>ret impl'.
      addFrame_Impl demo_env (demo_tracking Empty [(st, 3 / 4)]) demo_Mat demo_Mat 1 =
        Inr (ret, impl') \<and>
      displacement ret = 1 / 2 \<and> T_kf impl' = 3 / 4 \<and>
      frame_state (prev_frame impl') = Raw \<and> frame_state (cur_frame impl') = Empty"
    if ok: "checkResult demo_params st = Inr True" for st
  proof -
    let ?st = "demo_tracking Empty [(st, 3 / 4)]"
    have h2: "estimatePose demo_env (vo_pose ?st) (ref_frame ?st)
        (setData (cur_frame ?st) demo_Mat demo_Mat) (T_kf ?st * 1) =
          (st, 3 / 4, demo_estimator [])"
      by (simp add: demo_estimatePose)
    from ok have h3: "checkResult (params ?st) st = Inr True"
      by simp
    have h4: "shouldKeyFrame demo_env (params ?st) (demo_estimator []) (3 / 4) = kNoKeyFraming"
      by (simp add: shouldKeyFrame_demo_near)
    from addFrame_accepted_no_keyframe [OF h1 h2 h3 h4]
    obtain ret :: "(real, real) Result" and impl' where
      c: "addFrame_Impl demo_env ?st demo_Mat demo_Mat 1 = Inr (ret, impl')"
        "displacement ret = 3 / 4 * inverse (T_kf ?st)" "T_kf impl' = 3 / 4"
        "prev_frame impl' = setData (cur_frame ?st) demo_Mat demo_Mat"
        "cur_frame impl' = prev_frame ?st"
      by blast
    from c(2) have d: "displacement ret = 1 / 2" by simp
    from c(4) have p: "frame_state (prev_frame impl') = Raw" by simp
    from c(5) have q: "frame_state (cur_frame impl') = Empty" by simp
    from c(1,3) d p q show ?thesis by blast
  qed
  from h1 [of "[(good_stats, 3 / 4)]"] checkResult_demo(1,4)
    shouldKeyFrame_demo_near [of "[]"] W [OF checkResult_demo(1)] W [OF checkResult_demo(4)]
  show ?thesis by blast
qed

subsection \<open>A keyframe without a previous candidate\<close>

text \<open>
  Claim C3. When a keyframe is declared (the reason after the first estimate is not
  no-keyframe) and the previous slot is empty, the call returns \<open>success = false\<close> with
  that reason unchanged, the current frame is swapped into the reference slot and
  promoted to template (the old reference frame is then in the current slot), and the
  one estimate of the call is the first one: no second estimate is attempted.
\<close>

theorem addFrame_keyframe_without_previous:
  assumes "hasTemplate (ref_frame impl)"
    and "estimatePose env (vo_pose impl) (ref_frame impl) (setData (cur_frame impl) I D)
           (T_kf impl * guess) = (stats, T_est, e)"
    and "checkResult (params impl) stats = Inr ok"
    and "reason = (if ok then shouldKeyFrame env (params impl) e T_est else kEstimationFailed)"
    and "reason \<noteq> kNoKeyFraming"
    and "empty_frame (prev_frame impl)"
  shows "\<exists>ret impl'.
      addFrame_Impl env impl I D guess = Inr (ret, impl') \<and>
      \<not> success ret \<and> isKeyFrame ret \<and> keyFramingReason ret = reason \<and>
      ref_frame impl' = setTemplate (setData (cur_frame impl) I D) \<and>
      hasTemplate (ref_frame impl') \<and>
      cur_frame impl' = ref_frame impl \<and>
      prev_frame impl' = prev_frame impl \<and>
      T_kf impl' = 1 \<and>
      optimizerStatistics ret = stats \<and>
      call_log impl' = call_log impl @
        Call_estimatePose (ref_frame impl) (setData (cur_frame impl) I D) (T_kf impl * guess) #
        (if ok then [Call_shouldKeyFrame T_est] else [])"
proof -
  have "hasTemplate (setTemplate (setData (cur_frame impl) I D))"
    by (simp add: hasTemplate_def)
  then show ?thesis
    by (simp add: addFrame_double [OF assms])
qed

text \<open>
  On the concrete instance, with an empty previous slot: the estimate \<open>5\<close> is a large
  translation; and an estimate with an error on no pixels at the test level is rejected
  by the validator, which declares a keyframe with the reason estimation-failed.
\<close>

theorem addFrame_keyframe_without_previous_witness:
  "hasTemplate (ref_frame (demo_tracking Empty [(good_stats, 5)])) \<and>
   checkResult demo_params good_stats = Inr True \<and>
   shouldKeyFrame demo_env demo_params (demo_estimator []) 5 = kLargeTranslation \<and>
   empty_frame (prev_frame (demo_tracking Empty [(good_stats, 5)])) \<and>
   (\<exists>ret impl'.
      addFrame_Impl demo_env (demo_tracking Empty [(good_stats, 5)]) demo_Mat demo_Mat 1 =
        Inr (ret, impl') \<and>
      \<not> success ret \<and> isKeyFrame ret \<and> keyFramingReason ret = kLargeTranslation \<and>
      hasTemplate (ref_frame impl') \<and>
      storage (ref_frame impl') = 0 \<and> storage (cur_frame impl') = 1 \<and>
      length (call_log impl') = 2) \<and>
   checkResult demo_params no_pixel_stats = Inr False \<and>
   (\<exists>ret impl'.
      addFrame_Impl demo_env (demo_tracking Empty [(no_pixel_stats, 3 / 4)]) demo_Mat demo_Mat 1 =
        Inr (ret, impl') \<and>
      \<not> success ret \<and> isKeyFrame ret \<and> keyFramingReason ret = kEstimationFailed \<and>
      hasTemplate (ref_frame impl') \<and>
      storage (ref_frame impl') = 0 \<and> storage (cur_frame impl') = 1 \<and>
      length (call_log impl') = 1)"
proof -
  let ?st = "demo_tracking Empty [(good_stats, 5)]"
  let ?sn = "demo_tracking Empty [(no_pixel_stats, 3 / 4)]"
  have h1: "hasTemplate (ref_frame (demo_tracking Empty os))" for os
    by (simp add: hasTemplate_def)
  have h2: "estimatePose demo_env (vo_pose (demo_tracking Empty [(st, T)]))
      (ref_frame (demo_tracking Empty [(st, T)]))
      (setData (cur_frame (demo_tracking Empty [(st, T)])) demo_Mat demo_Mat)
      (T_kf (demo_tracking Empty [(st, T)]) * 1) =
        (st, T, demo_estimator [])" for st T
    by (simp add: demo_estimatePose)
  have h3: "checkResult (params ?st) good_stats = Inr True"
    by simp
  have h4: "kLargeTranslation =
      (if True then shouldKeyFrame demo_env (params ?st) (demo_estimator []) 5
       else kEstimationFailed)"
    by (simp add: shouldKeyFrame_demo_far)
  have h5: "kLargeTranslation \<noteq> kNoKeyFraming"
    by simp
  have h6: "empty_frame (prev_frame (demo_tracking Empty os))" for os
    by (simp add: empty_frame_def)
  from addFrame_keyframe_without_previous [OF h1 h2 h3 h4 h5 h6]
  obtain ret :: "(real, real) Result" and impl' where
    c: "addFrame_Impl demo_env ?st demo_Mat demo_Mat 1 = Inr (ret, impl')"
      "\<not> success ret" "isKeyFrame ret" "keyFramingReason ret = kLargeTranslation"
      "ref_frame impl' = setTemplate (setData (cur_frame ?st) demo_Mat demo_Mat)"
      "hasTemplate (ref_frame impl')"
      "cur_frame impl' = ref_frame ?st"
      "call_log impl' = call_log ?st @
        Call_estimatePose (ref_frame ?st) (setData (cur_frame ?st) demo_Mat demo_Mat)
          (T_kf ?st * 1) #
        (if True then [Call_shouldKeyFrame 5] else [])"
    by blast
  from c(5) have s0: "storage (ref_frame impl') = 0" by (simp add: demo_tracking_def)
  from c(7) have s1: "storage (cur_frame impl') = 1" by (simp add: demo_tracking_def)
  from c(8) have l: "length (call_log impl') = 2" by simp
  from c(1-4,6) s0 s1 l
  have A: "\<exists>ret impl'.
      addFrame_Impl demo_env ?st demo_Mat demo_Mat 1 = Inr (ret, impl') \<and>
      \<not> success ret \<and> isKeyFrame ret \<and> keyFramingReason ret = kLargeTranslation \<and>
      hasTemplate (ref_frame impl') \<and>
      storage (ref_frame impl') = 0 \<and> storage (cur_frame impl') = 1 \<and>
      length (call_log impl') = 2"
    by blast
  have n3: "checkResult (params ?sn) no_pixel_stats = Inr False"
    by simp
  have n4: "kEstimationFailed =
      (if False then shouldKeyFrame demo_env (params ?sn) (demo_estimator []) (3 / 4)
       else kEstimationFailed)"
    by simp
  have n5: "kEstimationFailed \<noteq> kNoKeyFraming"
    by simp
  from addFrame_keyframe_without_previous [OF h1 h2 n3 n4 n5 h6]
  obtain retn :: "(real, real) Result" and impln where
    n: "addFrame_Impl demo_env ?sn demo_Mat demo_Mat 1 = Inr (retn, impln)"
      "\<not> success retn" "isKeyFrame retn" "keyFramingReason retn = kEstimationFailed"
      "ref_frame impln = setTemplate (setData (cur_frame ?sn) demo_Mat demo_Mat)"
      "hasTemplate (ref_frame impln)"
      "cur_frame impln = ref_frame ?sn"
      "call_log impln = call_log ?sn @
        Call_estimatePose (ref_frame ?sn) (setData (cur_frame ?sn) demo_Mat demo_Mat)
          (T_kf ?sn * 1) #
        (if False then [Call_shouldKeyFrame (3 / 4)] else [])"
    by blast
  from n(5) have t0: "storage (ref_frame impln) = 0" by (simp add: demo_tracking_def)
  from n(7) have t1: "storage (cur_frame impln) = 1" by (simp add: demo_tracking_def)
  from n(8) have m: "length (call_log impln) = 1" by simp
  from n(1-4,6) t0 t1 m
  have B: "\<exists>ret impl'.
      addFrame_Impl demo_env ?sn demo_Mat demo_Mat 1 = Inr (ret, impl') \<and>
      \<not> success ret \<and> isKeyFrame ret \<and> keyFramingReason ret = kEstimationFailed \<and>
      hasTemplate (ref_frame impl') \<and>
      storage (ref_frame impl') = 0 \<and> storage (cur_frame impl') = 1 \<and>
      length (call_log impl') = 1"
    by blast
  from h1 [of "[(good_stats, 5)]"] checkResult_demo(1,3) shouldKeyFrame_demo_far [of "[]"]
    h6 [of "[(good_stats, 5)]"] A B
  show ?thesis by blast
qed

subsection \<open>A keyframe with a previous candidate\<close>

text \<open>
  Claim C2. When a keyframe is declared and the previous slot is not empty, the
  previous frame is swapped into the reference slot and promoted, the previous slot
  (now holding the old reference frame) is cleared, and the pose is estimated once more,
  against the new reference and seeded with the caller's guess itself, not with
  \<open>T_kf * guess\<close>. The returned displacement is the new estimate \<open>T_est2\<close> and so is the
  accumulated pose. If the validator rejects the second estimate the reason is
  estimation-failed and \<open>success\<close> is false; if it accepts it, the reason is the answer
  of \<open>shouldKeyFrame\<close> for \<open>T_est2\<close> and \<open>success\<close> is true exactly if that answer is
  no-keyframe. In each case the call returns the statistics of the second estimate and
  the point cloud taken from the outgoing reference frame.
\<close>

theorem addFrame_keyframe_with_previous:
  assumes "hasTemplate (ref_frame impl)"
    and "estimatePose env (vo_pose impl) (ref_frame impl) (setData (cur_frame impl) I D)
           (T_kf impl * guess) = (stats, T_est, e)"
    and "checkResult (params impl) stats = Inr ok"
    and "reason = (if ok then shouldKeyFrame env (params impl) e T_est else kEstimationFailed)"
    and "reason \<noteq> kNoKeyFraming"
    and "\<not> empty_frame (prev_frame impl)"
    and "estimatePose env e (setTemplate (prev_frame impl)) (setData (cur_frame impl) I D) guess =
           (stats2, T_est2, e2)"
    and "checkResult (params impl) stats2 = Inr ok2"
    and "reason2 = (if ok2 then shouldKeyFrame env (params impl) e2 T_est2 else kEstimationFailed)"
  shows "\<exists>ret impl'.
      addFrame_Impl env impl I D guess = Inr (ret, impl') \<and>
      ref_frame impl' = setTemplate (prev_frame impl) \<and>
      hasTemplate (ref_frame impl') \<and>
      prev_frame impl' = clear (ref_frame impl) \<and>
      empty_frame (prev_frame impl') \<and>
      cur_frame impl' = setData (cur_frame impl) I D \<and>
      call_log impl' = call_log impl @
        Call_estimatePose (ref_frame impl) (setData (cur_frame impl) I D) (T_kf impl * guess) #
        (if ok then [Call_shouldKeyFrame T_est] else []) @
        Call_estimatePose (setTemplate (prev_frame impl)) (setData (cur_frame impl) I D) guess #
        (if ok2 then [Call_shouldKeyFrame T_est2] else []) \<and>
      displacement ret = T_est2 \<and>
      T_kf impl' = T_est2 \<and>
      isKeyFrame ret \<and>
      keyFramingReason ret = reason2 \<and>
      success ret = (ok2 \<and> reason2 = kNoKeyFraming) \<and>
      pointCloud ret = getPointCloudFromRefFrame env (impl\<lparr>vo_pose := e\<rparr>) \<and>
      optimizerStatistics ret = stats2"
proof -
  from assms(6) have tpl: "hasTemplate (setTemplate (prev_frame impl))"
    by (simp add: hasTemplate_def empty_frame_def)
  have emp: "empty_frame (clear (ref_frame impl))"
    by (simp add: empty_frame_def)
  from tpl emp show ?thesis
    by (simp add: addFrame_backup [OF assms])
qed

text \<open>
  On the concrete instance, after a large translation (estimate \<open>5\<close>) with a raw frame
  in the previous slot: a second estimate \<open>3 / 4\<close> that is accepted and is no trigger
  gives \<open>success = true\<close>; a rejected second estimate gives estimation-failed, be it
  rejected for a solver error or for an error on no pixels at the test level; an
  accepted second estimate \<open>5\<close> is a trigger again and gives \<open>success = false\<close>.
\<close>

theorem addFrame_keyframe_with_previous_witness:
  "hasTemplate (ref_frame (demo_tracking Raw [(good_stats, 5), (good_stats, 3 / 4)])) \<and>
   shouldKeyFrame demo_env demo_params (demo_estimator [(good_stats, 3 / 4)]) 5 =
     kLargeTranslation \<and>
   \<not> empty_frame (prev_frame (demo_tracking Raw [(good_stats, 5), (good_stats, 3 / 4)])) \<and>
   (\<exists>ret impl'.
      addFrame_Impl demo_env (demo_tracking Raw [(good_stats, 5), (good_stats, 3 / 4)])
        demo_Mat demo_Mat 1 = Inr (ret, impl') \<and>
      success ret \<and> isKeyFrame ret \<and> keyFramingReason ret = kNoKeyFraming \<and>
      displacement ret = 3 / 4 \<and> T_kf impl' = 3 / 4 \<and>
      storage (ref_frame impl') = 2 \<and> hasTemplate (ref_frame impl') \<and>
      storage (prev_frame impl') = 1 \<and> empty_frame (prev_frame impl') \<and>
      length (call_log impl') = 4) \<and>
   (\<exists>ret impl'.
      addFrame_Impl demo_env (demo_tracking Raw [(good_stats, 5), (failed_stats, 3 / 4)])
        demo_Mat demo_Mat 1 = Inr (ret, impl') \<and>
      \<not> success ret \<and> keyFramingReason ret = kEstimationFailed \<and>
      optimizerStatistics ret = failed_stats) \<and>
   (\<exists>ret impl'.
      addFrame_Impl demo_env (demo_tracking Raw [(good_stats, 5), (good_stats, 5)])
        demo_Mat demo_Mat 1 = Inr (ret, impl') \<and>
      \<not> success ret \<and> keyFramingReason ret = kLargeTranslation \<and>
      optimizerStatistics ret = good_stats) \<and>
   checkResult demo_params no_pixel_stats = Inr False \<and>
   (\<exists>ret impl'.
      addFrame_Impl demo_env (demo_tracking Raw [(good_stats, 5), (no_pixel_stats, 3 / 4)])
        demo_Mat demo_Mat 1 = Inr (ret, impl') \<and>
      \<not> success ret \<and> keyFramingReason ret = kEstimationFailed \<and>
      optimizerStatistics ret = no_pixel_stats \<and> displacement ret = 3 / 4 \<and>
      length (call_log impl') = 3)"
proof -
  let ?a = "demo_tracking Raw [(good_stats, 5), (good_stats, 3 / 4)]"
  let ?b = "demo_tracking Raw [(good_stats, 5), (failed_stats, 3 / 4)]"
  let ?c = "demo_tracking Raw [(good_stats, 5), (good_stats, 5)]"
  have h1: "hasTemplate (ref_frame (demo_tracking Raw os))" for os
    by (simp add: hasTemplate_def)
  have h2: "estimatePose demo_env (vo_pose (demo_tracking Raw ((good_stats, 5) # os)))
      (ref_frame (demo_tracking Raw ((good_stats, 5) # os)))
      (setData (cur_frame (demo_tracking Raw ((good_stats, 5) # os))) demo_Mat demo_Mat)
      (T_kf (demo_tracking Raw ((good_stats, 5) # os)) * 1) =
        (good_stats, 5, demo_estimator os)" for os
    by (simp add: demo_estimatePose)
  have h3: "checkResult (params (demo_tracking Raw os)) good_stats = Inr True" for os
    by simp
  have h4: "kLargeTranslation =
      (if True then shouldKeyFrame demo_env (params (demo_tracking Raw os')) (demo_estimator os) 5
       else kEstimationFailed)" for os os'
    by (simp add: shouldKeyFrame_demo_far)
  have h5: "kLargeTranslation \<noteq> kNoKeyFraming"
    by simp
  have h6: "\<not> empty_frame (prev_frame (demo_tracking Raw os))" for os
    by (simp add: empty_frame_def)
  have h7: "estimatePose demo_env (demo_estimator [(st, T)])
      (setTemplate (prev_frame (demo_tracking Raw os)))
      (setData (cur_frame (demo_tracking Raw os)) demo_Mat demo_Mat) 1 =
        (st, T, demo_estimator [])" for st T os
    by (simp add: demo_estimatePose)
  have h8a: "checkResult (params ?a) good_stats = Inr True"
    by simp
  have h9a: "kNoKeyFraming =
      (if True then shouldKeyFrame demo_env (params ?a) (demo_estimator []) (3 / 4)
       else kEstimationFailed)"
    by (simp add: shouldKeyFrame_demo_near)
  from addFrame_keyframe_with_previous [OF h1 h2 h3 h4 h5 h6 h7 h8a h9a]
  obtain ret :: "(real, real) Result" and impl' where
    a: "addFrame_Impl demo_env ?a demo_Mat demo_Mat 1 = Inr (ret, impl')"
      "ref_frame impl' = setTemplate (prev_frame ?a)"
      "hasTemplate (ref_frame impl')"
      "prev_frame impl' = clear (ref_frame ?a)"
      "empty_frame (prev_frame impl')"
      "call_log impl' = call_log ?a @
        Call_estimatePose (ref_frame ?a) (setData (cur_frame ?a) demo_Mat demo_Mat)
          (T_kf ?a * 1) #
        (if True then [Call_shouldKeyFrame 5] else []) @
        Call_estimatePose (setTemplate (prev_frame ?a)) (setData (cur_frame ?a) demo_Mat demo_Mat) 1 #
        (if True then [Call_shouldKeyFrame (3 / 4)] else [])"
      "displacement ret = 3 / 4" "T_kf impl' = 3 / 4" "isKeyFrame ret"
      "keyFramingReason ret = kNoKeyFraming"
      "success ret = (True \<and> kNoKeyFraming = kNoKeyFraming)"
    by blast
  from a(2) have a2: "storage (ref_frame impl') = 2" by (simp add: demo_tracking_def)
  from a(4) have a4: "storage (prev_frame impl') = 1" by (simp add: demo_tracking_def)
  from a(6) have a6: "length (call_log impl') = 4" by simp
  from a(11) have a11: "success ret" by simp
  from a(1,3,5,7-10) a2 a4 a6 a11
  have A: "\<exists>ret impl'.
      addFrame_Impl demo_env ?a demo_Mat demo_Mat 1 = Inr (ret, impl') \<and>
      success ret \<and> isKeyFrame ret \<and> keyFramingReason ret = kNoKeyFraming \<and>
      displacement ret = 3 / 4 \<and> T_kf impl' = 3 / 4 \<and>
      storage (ref_frame impl') = 2 \<and> hasTemplate (ref_frame impl') \<and>
      storage (prev_frame impl') = 1 \<and> empty_frame (prev_frame impl') \<and>
      length (call_log impl') = 4"
    by blast
  have h8b: "checkResult (params ?b) failed_stats = Inr False"
    by simp
  have h9b: "kEstimationFailed =
      (if False then shouldKeyFrame demo_env (params ?b) (demo_estimator []) (3 / 4)
       else kEstimationFailed)"
    by simp
  from addFrame_keyframe_with_previous [OF h1 h2 h3 h4 h5 h6 h7 h8b h9b]
  obtain retb :: "(real, real) Result" and implb where
    b: "addFrame_Impl demo_env ?b demo_Mat demo_Mat 1 = Inr (retb, implb)"
      "keyFramingReason retb = kEstimationFailed"
      "success retb = (False \<and> kEstimationFailed = kNoKeyFraming)"
      "optimizerStatistics retb = failed_stats"
    by blast
  from b(3) have b3: "\<not> success retb" by simp
  from b(1,2,4) b3
  have B: "\<exists>ret impl'.
      addFrame_Impl demo_env ?b demo_Mat demo_Mat 1 = Inr (ret, impl') \<and>
      \<not> success ret \<and> keyFramingReason ret = kEstimationFailed \<and>
      optimizerStatistics ret = failed_stats"
    by blast
  have h8c: "checkResult (params ?c) good_stats = Inr True"
    by simp
  have h9c: "kLargeTranslation =
      (if True then shouldKeyFrame demo_env (params ?c) (demo_estimator []) 5
       else kEstimationFailed)"
    by (simp add: shouldKeyFrame_demo_far)
  from addFrame_keyframe_with_previous [OF h1 h2 h3 h4 h5 h6 h7 h8c h9c]
  obtain retc :: "(real, real) Result" and implc where
    c: "addFrame_Impl demo_env ?c demo_Mat demo_Mat 1 = Inr (retc, implc)"
      "keyFramingReason retc = kLargeTranslation"
      "success retc = (True \<and> kLargeTranslation = kNoKeyFraming)"
      "optimizerStatistics retc = good_stats"
    by blast
  from c(3) have c3: "\<not> success retc" by simp
  from c(1,2,4) c3
  have C: "\<exists>ret impl'.
      addFrame_Impl demo_env ?c demo_Mat demo_Mat 1 = Inr (ret, impl') \<and>
      \<not> success ret \<and> keyFramingReason ret = kLargeTranslation \<and>
      optimizerStatistics ret = good_stats"
    by blast
  let ?d = "demo_tracking Raw [(good_stats, 5), (no_pixel_stats, 3 / 4)]"
  have h8d: "checkResult (params ?d) no_pixel_stats = Inr False"
    by simp
  have h9d: "kEstimationFailed =
      (if False then shouldKeyFrame demo_env (params ?d) (demo_estimator []) (3 / 4)
       else kEstimationFailed)"
    by simp
  from addFrame_keyframe_with_previous [OF h1 h2 h3 h4 h5 h6 h7 h8d h9d]
  obtain retd :: "(real, real) Result" and impld where
    d: "addFrame_Impl demo_env ?d demo_Mat demo_Mat 1 = Inr (retd, impld)"
      "keyFramingReason retd = kEstimationFailed"
      "success retd = (False \<and> kEstimationFailed = kNoKeyFraming)"
      "optimizerStatistics retd = no_pixel_stats"
      "displacement retd = 3 / 4"
      "call_log impld = call_log ?d @
        Call_estimatePose (ref_frame ?d) (setData (cur_frame ?d) demo_Mat demo_Mat)
          (T_kf ?d * 1) #
        (if True then [Call_shouldKeyFrame 5] else []) @
        Call_estimatePose (setTemplate (prev_frame ?d)) (setData (cur_frame ?d) demo_Mat demo_Mat) 1 #
        (if False then [Call_shouldKeyFrame (3 / 4)] else [])"
    by blast
  from d(3) have d3: "\<not> success retd" by simp
  from d(6) have d6: "length (call_log impld) = 3" by simp
  from d(1,2,4,5) d3 d6
  have D: "\<exists>ret impl'.
      addFrame_Impl demo_env ?d demo_Mat demo_Mat 1 = Inr (ret, impl') \<and>
      \<not> success ret \<and> keyFramingReason ret = kEstimationFailed \<and>
      optimizerStatistics ret = no_pixel_stats \<and> displacement ret = 3 / 4 \<and>
      length (call_log impl') = 3"
    by blast
  from h1 [of "[(good_stats, 5), (good_stats, 3 / 4)]"]
    shouldKeyFrame_demo_far [of "[(good_stats, 3 / 4)]"]
    h6 [of "[(good_stats, 5), (good_stats, 3 / 4)]"] A B C checkResult_demo(3) D
  show ?thesis by blast
qed

subsection \<open>A rejected first estimate\<close>

text \<open>
  Claim C1 says that a rejected first estimate gives \<open>isKeyFrame = false\<close>,
  \<open>success = false\<close> and the reason estimation-failed, and that the current frame
  becomes the previous candidate. The code sets \<open>isKeyFrame\<close> to "reason is not
  no-keyframe", and estimation-failed is not no-keyframe: the call goes on in the
  keyframe branch. Two runs from a fresh instance show it. In the first, the estimate
  of the second frame is rejected (solver error at level 1) while the previous slot is
  empty: the flags are \<open>success = false\<close>, \<open>isKeyFrame = true\<close>, estimation-failed, and
  the frame is in the reference slot (templated), not in the previous slot (empty).
  In the second, the estimate of the third frame is rejected while the second frame is
  the previous candidate, and the estimate against that candidate is accepted: the
  call returns \<open>success = true\<close>, \<open>isKeyFrame = true\<close> and the reason no-keyframe.
\<close>

theorem addFrame_primary_rejected_counterexample:
  "checkResult demo_params failed_stats = Inr False \<and>
   flags (addFrame_after (scripted (demo_estimator [(failed_stats, 1)]))
     (fresh_then [(failed_stats, 1)] 1) demo_Mat demo_Mat 1) =
     Some (False, True, kEstimationFailed) \<and>
   slot_states (addFrame_after (scripted (demo_estimator [(failed_stats, 1)]))
     (fresh_then [(failed_stats, 1)] 1) demo_Mat demo_Mat 1) =
     Some (Templated, Templated, Empty) \<and>
   flags (addFrame_after
     (scripted (demo_estimator [(good_stats, 3 / 4), (failed_stats, 1), (good_stats, 3 / 4)]))
     (fresh_then [(good_stats, 3 / 4), (failed_stats, 1), (good_stats, 3 / 4)] 2)
     demo_Mat demo_Mat 1) =
     Some (True, True, kNoKeyFraming)"
  by (simp add: flags_def slot_states_def addFrame_after_def fresh_then_def run_simps demo_simps
      numeral_2_eq_2)

text \<open>
  Claim C1, amended. When the validator rejects the first estimate, \<open>shouldKeyFrame\<close> is
  not called for it, the reason set is estimation-failed, \<open>isKeyFrame\<close> is true and the
  call takes the keyframe branch. With an empty previous slot it returns the reason
  estimation-failed and \<open>success = false\<close>; the current frame is swapped into the
  reference slot and promoted, and the first estimate is the only call made. With a
  previous candidate, that frame is promoted to reference, the previous slot is cleared,
  the current frame stays in the current slot and the pose is estimated a second time;
  the returned reason and \<open>success\<close> are those of the second estimate.
\<close>

theorem addFrame_primary_rejected:
  assumes "hasTemplate (ref_frame impl)"
    and "estimatePose env (vo_pose impl) (ref_frame impl) (setData (cur_frame impl) I D)
           (T_kf impl * guess) = (stats, T_est, e)"
    and "checkResult (params impl) stats = Inr False"
  shows "(empty_frame (prev_frame impl) \<longrightarrow>
      (\<exists>ret impl'.
         addFrame_Impl env impl I D guess = Inr (ret, impl') \<and>
         keyFramingReason ret = kEstimationFailed \<and> isKeyFrame ret \<and> \<not> success ret \<and>
         ref_frame impl' = setTemplate (setData (cur_frame impl) I D) \<and>
         cur_frame impl' = ref_frame impl \<and>
         prev_frame impl' = prev_frame impl \<and>
         call_log impl' = call_log impl @
           [Call_estimatePose (ref_frame impl) (setData (cur_frame impl) I D)
              (T_kf impl * guess)])) \<and>
     (\<not> empty_frame (prev_frame impl) \<and>
      estimatePose env e (setTemplate (prev_frame impl)) (setData (cur_frame impl) I D) guess =
        (stats2, T_est2, e2) \<and>
      checkResult (params impl) stats2 = Inr ok2 \<longrightarrow>
      (\<exists>ret impl'.
         addFrame_Impl env impl I D guess = Inr (ret, impl') \<and>
         isKeyFrame ret \<and>
         keyFramingReason ret =
           (if ok2 then shouldKeyFrame env (params impl) e2 T_est2 else kEstimationFailed) \<and>
         success ret = (ok2 \<and> shouldKeyFrame env (params impl) e2 T_est2 = kNoKeyFraming) \<and>
         ref_frame impl' = setTemplate (prev_frame impl) \<and>
         prev_frame impl' = clear (ref_frame impl) \<and>
         cur_frame impl' = setData (cur_frame impl) I D \<and>
         call_log impl' = call_log impl @
           [Call_estimatePose (ref_frame impl) (setData (cur_frame impl) I D) (T_kf impl * guess),
            Call_estimatePose (setTemplate (prev_frame impl)) (setData (cur_frame impl) I D)
              guess] @
           (if ok2 then [Call_shouldKeyFrame T_est2] else [])))"
proof (intro conjI impI)
  have r: "kEstimationFailed =
      (if False then shouldKeyFrame env (params impl) e T_est else kEstimationFailed)"
    by simp
  have k: "kEstimationFailed \<noteq> kNoKeyFraming"
    by simp
  {
    assume emp: "empty_frame (prev_frame impl)"
    show "\<exists>ret impl'.
         addFrame_Impl env impl I D guess = Inr (ret, impl') \<and>
         keyFramingReason ret = kEstimationFailed \<and> isKeyFrame ret \<and> \<not> success ret \<and>
         ref_frame impl' = setTemplate (setData (cur_frame impl) I D) \<and>
         cur_frame impl' = ref_frame impl \<and>
         prev_frame impl' = prev_frame impl \<and>
         call_log impl' = call_log impl @
           [Call_estimatePose (ref_frame impl) (setData (cur_frame impl) I D)
              (T_kf impl * guess)]"
      by (simp add: addFrame_double [OF assms r k emp])
  }
  {
    assume h: "\<not> empty_frame (prev_frame impl) \<and>
      estimatePose env e (setTemplate (prev_frame impl)) (setData (cur_frame impl) I D) guess =
        (stats2, T_est2, e2) \<and>
      checkResult (params impl) stats2 = Inr ok2"
    then have ne: "\<not> empty_frame (prev_frame impl)"
      and est2: "estimatePose env e (setTemplate (prev_frame impl))
          (setData (cur_frame impl) I D) guess = (stats2, T_est2, e2)"
      and chk2: "checkResult (params impl) stats2 = Inr ok2"
      by simp_all
    show "\<exists>ret impl'.
         addFrame_Impl env impl I D guess = Inr (ret, impl') \<and>
         isKeyFrame ret \<and>
         keyFramingReason ret =
           (if ok2 then shouldKeyFrame env (params impl) e2 T_est2 else kEstimationFailed) \<and>
         success ret = (ok2 \<and> shouldKeyFrame env (params impl) e2 T_est2 = kNoKeyFraming) \<and>
         ref_frame impl' = setTemplate (prev_frame impl) \<and>
         prev_frame impl' = clear (ref_frame impl) \<and>
         cur_frame impl' = setData (cur_frame impl) I D \<and>
         call_log impl' = call_log impl @
           [Call_estimatePose (ref_frame impl) (setData (cur_frame impl) I D) (T_kf impl * guess),
            Call_estimatePose (setTemplate (prev_frame impl)) (setData (cur_frame impl) I D)
              guess] @
           (if ok2 then [Call_shouldKeyFrame T_est2] else [])"
      by (simp add: addFrame_backup [OF assms r k ne est2 chk2 refl])
  }
qed

text \<open>
  On the concrete instance: a rejected estimate with an empty previous slot (rejected
  for a solver error, and rejected for an error on no pixels at the test level), and a
  rejected estimate with a raw frame in the previous slot whose second estimate
  \<open>3 / 4\<close> is accepted.
\<close>

theorem addFrame_primary_rejected_witness:
  "hasTemplate (ref_frame (demo_tracking Empty [(failed_stats, 1)])) \<and>
   checkResult demo_params failed_stats = Inr False \<and>
   empty_frame (prev_frame (demo_tracking Empty [(failed_stats, 1)])) \<and>
   (\<exists>ret impl'.
      addFrame_Impl demo_env (demo_tracking Empty [(failed_stats, 1)]) demo_Mat demo_Mat 1 =
        Inr (ret, impl') \<and>
      keyFramingReason ret = kEstimationFailed \<and> isKeyFrame ret \<and> \<not> success ret \<and>
      storage (ref_frame impl') = 0 \<and> storage (cur_frame impl') = 1 \<and>
      length (call_log impl') = 1) \<and>
   \<not> empty_frame (prev_frame (demo_tracking Raw [(failed_stats, 1), (good_stats, 3 / 4)])) \<and>
   checkResult demo_params good_stats = Inr True \<and>
   (\<exists>ret impl'.
      addFrame_Impl demo_env (demo_tracking Raw [(failed_stats, 1), (good_stats, 3 / 4)])
        demo_Mat demo_Mat 1 = Inr (ret, impl') \<and>
      isKeyFrame ret \<and> keyFramingReason ret = kNoKeyFraming \<and> success ret \<and>
      storage (ref_frame impl') = 2 \<and> storage (cur_frame impl') = 0 \<and>
      storage (prev_frame impl') = 1 \<and>
      length (call_log impl') = 3) \<and>
   checkResult demo_params no_pixel_stats = Inr False \<and>
   (\<exists>ret impl'.
      addFrame_Impl demo_env (demo_tracking Empty [(no_pixel_stats, 1)]) demo_Mat demo_Mat 1 =
        Inr (ret, impl') \<and>
      keyFramingReason ret = kEstimationFailed \<and> isKeyFrame ret \<and> \<not> success ret \<and>
      storage (ref_frame impl') = 0 \<and> storage (cur_frame impl') = 1 \<and>
      length (call_log impl') = 1)"
proof -
  let ?a = "demo_tracking Empty [(failed_stats, 1)]"
  let ?b = "demo_tracking Raw [(failed_stats, 1), (good_stats, 3 / 4)]"
  have h1: "hasTemplate (ref_frame (demo_tracking pst os))" for pst os
    by (simp add: hasTemplate_def)
  have h2: "estimatePose demo_env (vo_pose (demo_tracking pst ((failed_stats, 1) # os)))
      (ref_frame (demo_tracking pst ((failed_stats, 1) # os)))
      (setData (cur_frame (demo_tracking pst ((failed_stats, 1) # os))) demo_Mat demo_Mat)
      (T_kf (demo_tracking pst ((failed_stats, 1) # os)) * 1) =
        (failed_stats, 1, demo_estimator os)" for pst os
    by (simp add: demo_estimatePose)
  have h3: "checkResult (params (demo_tracking pst os)) failed_stats = Inr False" for pst os
    by simp
  have ea: "empty_frame (prev_frame ?a)"
    by (simp add: empty_frame_def)
  from addFrame_primary_rejected [OF h1 h2 h3, of Empty "[]"] ea
  obtain ret :: "(real, real) Result" and impl' where
    a: "addFrame_Impl demo_env ?a demo_Mat demo_Mat 1 = Inr (ret, impl')"
      "keyFramingReason ret = kEstimationFailed" "isKeyFrame ret" "\<not> success ret"
      "ref_frame impl' = setTemplate (setData (cur_frame ?a) demo_Mat demo_Mat)"
      "cur_frame impl' = ref_frame ?a"
      "call_log impl' = call_log ?a @
           [Call_estimatePose (ref_frame ?a) (setData (cur_frame ?a) demo_Mat demo_Mat)
              (T_kf ?a * 1)]"
    by blast
  from a(5) have a5: "storage (ref_frame impl') = 0" by (simp add: demo_tracking_def)
  from a(6) have a6: "storage (cur_frame impl') = 1" by (simp add: demo_tracking_def)
  from a(7) have a7: "length (call_log impl') = 1" by simp
  from a(1-4) a5 a6 a7
  have A: "\<exists>ret impl'.
      addFrame_Impl demo_env ?a demo_Mat demo_Mat 1 = Inr (ret, impl') \<and>
      keyFramingReason ret = kEstimationFailed \<and> isKeyFrame ret \<and> \<not> success ret \<and>
      storage (ref_frame impl') = 0 \<and> storage (cur_frame impl') = 1 \<and>
      length (call_log impl') = 1"
    by blast
  have nb: "\<not> empty_frame (prev_frame ?b)"
    by (simp add: empty_frame_def)
  have e2: "estimatePose demo_env (demo_estimator [(good_stats, 3 / 4)])
      (setTemplate (prev_frame ?b)) (setData (cur_frame ?b) demo_Mat demo_Mat) 1 =
        (good_stats, 3 / 4, demo_estimator [])"
    by (simp add: demo_estimatePose)
  have c2: "checkResult (params ?b) good_stats = Inr True"
    by simp
  from addFrame_primary_rejected [OF h1 h2 h3,
      of Raw "[(good_stats, 3 / 4)]" good_stats "3 / 4" "demo_estimator []" True] nb e2 c2
  obtain retb :: "(real, real) Result" and implb where
    b: "addFrame_Impl demo_env ?b demo_Mat demo_Mat 1 = Inr (retb, implb)"
      "isKeyFrame retb"
      "keyFramingReason retb =
         (if True then shouldKeyFrame demo_env (params ?b) (demo_estimator []) (3 / 4)
          else kEstimationFailed)"
      "success retb =
         (True \<and> shouldKeyFrame demo_env (params ?b) (demo_estimator []) (3 / 4) = kNoKeyFraming)"
      "ref_frame implb = setTemplate (prev_frame ?b)"
      "prev_frame implb = clear (ref_frame ?b)"
      "cur_frame implb = setData (cur_frame ?b) demo_Mat demo_Mat"
      "call_log implb = call_log ?b @
           [Call_estimatePose (ref_frame ?b) (setData (cur_frame ?b) demo_Mat demo_Mat)
              (T_kf ?b * 1),
            Call_estimatePose (setTemplate (prev_frame ?b))
              (setData (cur_frame ?b) demo_Mat demo_Mat) 1] @
           (if True then [Call_shouldKeyFrame (3 / 4)] else [])"
    by blast
  from b(3) have b3: "keyFramingReason retb = kNoKeyFraming"
    by (simp add: shouldKeyFrame_demo_near)
  from b(4) have b4: "success retb"
    by (simp add: shouldKeyFrame_demo_near)
  from b(5) have b5: "storage (ref_frame implb) = 2" by (simp add: demo_tracking_def)
  from b(6) have b6: "storage (prev_frame implb) = 1" by (simp add: demo_tracking_def)
  from b(7) have b7: "storage (cur_frame implb) = 0" by (simp add: demo_tracking_def)
  from b(8) have b8: "length (call_log implb) = 3" by simp
  from b(1,2) b3 b4 b5 b6 b7 b8
  have B: "\<exists>ret impl'.
      addFrame_Impl demo_env ?b demo_Mat demo_Mat 1 = Inr (ret, impl') \<and>
      isKeyFrame ret \<and> keyFramingReason ret = kNoKeyFraming \<and> success ret \<and>
      storage (ref_frame impl') = 2 \<and> storage (cur_frame impl') = 0 \<and>
      storage (prev_frame impl') = 1 \<and>
      length (call_log impl') = 3"
    by blast
  let ?c = "demo_tracking Empty [(no_pixel_stats, 1)]"
  have c2': "estimatePose demo_env (vo_pose ?c) (ref_frame ?c)
      (setData (cur_frame ?c) demo_Mat demo_Mat) (T_kf ?c * 1) =
        (no_pixel_stats, 1, demo_estimator [])"
    by (simp add: demo_estimatePose)
  have c3': "checkResult (params ?c) no_pixel_stats = Inr False"
    by simp
  have ec: "empty_frame (prev_frame ?c)"
    by (simp add: empty_frame_def)
  from addFrame_primary_rejected [OF h1 c2' c3'] ec
  obtain retc :: "(real, real) Result" and implc where
    c: "addFrame_Impl demo_env ?c demo_Mat demo_Mat 1 = Inr (retc, implc)"
      "keyFramingReason retc = kEstimationFailed" "isKeyFrame retc" "\<not> success retc"
      "ref_frame implc = setTemplate (setData (cur_frame ?c) demo_Mat demo_Mat)"
      "cur_frame implc = ref_frame ?c"
      "call_log implc = call_log ?c @
           [Call_estimatePose (ref_frame ?c) (setData (cur_frame ?c) demo_Mat demo_Mat)
              (T_kf ?c * 1)]"
    by blast
  from c(5) have c5: "storage (ref_frame implc) = 0" by (simp add: demo_tracking_def)
  from c(6) have c6: "storage (cur_frame implc) = 1" by (simp add: demo_tracking_def)
  from c(7) have c7: "length (call_log implc) = 1" by simp
  from c(1-4) c5 c6 c7
  have C: "\<exists>ret impl'.
      addFrame_Impl demo_env ?c demo_Mat demo_Mat 1 = Inr (ret, impl') \<and>
      keyFramingReason ret = kEstimationFailed \<and> isKeyFrame ret \<and> \<not> success ret \<and>
      storage (ref_frame impl') = 0 \<and> storage (cur_frame impl') = 1 \<and>
      length (call_log impl') = 1"
    by blast
  from h1 [of Empty "[(failed_stats, 1)]"] checkResult_demo ea A nb B C
  show ?thesis by blast
qed

subsection \<open>The three slots\<close>

lemma slots_step:
  assumes inv: "\<not> hasTemplate (prev_frame impl)"
      "distinct [storage (ref_frame impl), storage (cur_frame impl), storage (prev_frame impl)]"
    and run: "addFrame_Impl env impl I D guess = Inr (ret, impl')"
  shows "hasTemplate (ref_frame impl') \<and> \<not> hasTemplate (prev_frame impl') \<and>
     distinct [storage (ref_frame impl'), storage (cur_frame impl'), storage (prev_frame impl')] \<and>
     (hasTemplate (cur_frame impl') \<longleftrightarrow>
        hasTemplate (ref_frame impl) \<and> isKeyFrame ret \<and> empty_frame (prev_frame impl))"
proof (cases "hasTemplate (ref_frame impl)")
  case False
  from run inv False show ?thesis
    by (auto simp: addFrame_first [OF False] hasTemplate_def empty_frame_def
        FirstFrameResult_def Let_def split: sum.splits if_splits)
next
  case ref: True
  obtain stats T_est e where est:
    "estimatePose env (vo_pose impl) (ref_frame impl) (setData (cur_frame impl) I D)
           (T_kf impl * guess) = (stats, T_est, e)"
    by (cases "estimatePose env (vo_pose impl) (ref_frame impl) (setData (cur_frame impl) I D)
           (T_kf impl * guess)")
  show ?thesis
  proof (cases "checkResult (params impl) stats")
    case (Inl err)
    from addFrame_error [OF ref est Inl] run show ?thesis by simp
  next
    case (Inr ok)
    define reason where
      "reason = (if ok then shouldKeyFrame env (params impl) e T_est else kEstimationFailed)"
    show ?thesis
    proof (cases "reason = kNoKeyFraming")
      case True
      then have ok: "ok" and no: "shouldKeyFrame env (params impl) e T_est = kNoKeyFraming"
        by (auto simp: reason_def split: if_splits)
      from Inr ok have chk: "checkResult (params impl) stats = Inr True" by simp
      from run inv ref show ?thesis
        by (auto simp: addFrame_tracking [OF ref est chk no] hasTemplate_def empty_frame_def)
    next
      case key: False
      show ?thesis
      proof (cases "empty_frame (prev_frame impl)")
        case True
        from run inv ref True show ?thesis
          by (auto simp: addFrame_double [OF ref est Inr reason_def key True]
              hasTemplate_def empty_frame_def)
      next
        case ne: False
        obtain stats2 T_est2 e2 where est2:
          "estimatePose env e (setTemplate (prev_frame impl)) (setData (cur_frame impl) I D) guess =
             (stats2, T_est2, e2)"
          by (cases "estimatePose env e (setTemplate (prev_frame impl))
                (setData (cur_frame impl) I D) guess")
        show ?thesis
        proof (cases "checkResult (params impl) stats2")
          case (Inl err)
          from addFrame_backup_error [OF ref est Inr reason_def key ne est2 Inl] run
          show ?thesis by simp
        next
          case chk2: (Inr ok2)
          from run inv ref ne show ?thesis
            by (auto simp: addFrame_backup [OF ref est Inr reason_def key ne est2 chk2 refl]
                hasTemplate_def empty_frame_def)
        qed
      qed
    qed
  qed
qed

lemma slots_run:
  assumes "run_frames env impl fs = Inr impl'"
    and "\<not> hasTemplate (prev_frame impl)"
    and "distinct [storage (ref_frame impl), storage (cur_frame impl), storage (prev_frame impl)]"
  shows "\<not> hasTemplate (prev_frame impl') \<and>
     distinct [storage (ref_frame impl'), storage (cur_frame impl'), storage (prev_frame impl')]"
  using assms
proof (induction fs arbitrary: impl)
  case Nil
  then show ?case by simp
next
  case (Cons f fs)
  obtain I D guess where f: "f = (I, D, guess)" by (cases f)
  from Cons.prems(1) f obtain ret impl1 where
    one: "addFrame_Impl env impl I D guess = Inr (ret, impl1)" and
    rest: "run_frames env impl1 fs = Inr impl'"
    by (auto split: sum.splits)
  from slots_step [OF Cons.prems(2,3) one]
  have "\<not> hasTemplate (prev_frame impl1)"
    "distinct [storage (ref_frame impl1), storage (cur_frame impl1), storage (prev_frame impl1)]"
    by simp_all
  with Cons.IH [OF rest] show ?case by simp
qed

text \<open>
  Claim C8 says that after every completed call exactly one slot is templated. A run
  from a fresh instance shows two: the second frame is a large translation (estimate
  \<open>5\<close>) while the previous slot is empty, so the current frame is swapped into the
  reference slot and promoted, and the outgoing reference frame, which nothing clears,
  is in the current slot with its template.
\<close>

theorem slots_after_addFrame_counterexample:
  "flags (addFrame_after (scripted (demo_estimator [(good_stats, 5)]))
     (fresh_then [(good_stats, 5)] 1) demo_Mat demo_Mat 1) =
     Some (False, True, kLargeTranslation) \<and>
   slot_states (addFrame_after (scripted (demo_estimator [(good_stats, 5)]))
     (fresh_then [(good_stats, 5)] 1) demo_Mat demo_Mat 1) =
     Some (Templated, Templated, Empty)"
  by (simp add: flags_def slot_states_def addFrame_after_def fresh_then_def run_simps demo_simps)

text \<open>
  Claim C8, amended. After every completed \<open>addFrame\<close> call on an instance that started
  fresh, the reference slot holds a templated frame, the previous slot holds a raw or
  empty one, and the three slots hold three different frame storages. The current slot
  holds a raw or empty frame, except after a call that declared a keyframe while the
  previous slot was empty: then it holds the outgoing reference frame, still templated.
\<close>

theorem slots_after_addFrame:
  assumes "Impl_new env sz p = Inr impl0"
    and "run_frames env impl0 fs = Inr impl"
    and "addFrame_Impl env impl I D guess = Inr (ret, impl')"
  shows "hasTemplate (ref_frame impl') \<and> \<not> hasTemplate (prev_frame impl') \<and>
     distinct [storage (ref_frame impl'), storage (cur_frame impl'), storage (prev_frame impl')] \<and>
     (hasTemplate (cur_frame impl') \<longleftrightarrow>
        hasTemplate (ref_frame impl) \<and> isKeyFrame ret \<and> empty_frame (prev_frame impl))"
proof -
  from Impl_new_fresh [OF assms(1)]
  have "\<not> hasTemplate (prev_frame impl0)"
    "distinct [storage (ref_frame impl0), storage (cur_frame impl0), storage (prev_frame impl0)]"
    by (simp_all add: hasTemplate_def)
  from slots_run [OF assms(2) this]
  have "\<not> hasTemplate (prev_frame impl)"
    "distinct [storage (ref_frame impl), storage (cur_frame impl), storage (prev_frame impl)]"
    by simp_all
  from slots_step [OF this assms(3)] show ?thesis .
qed

text \<open>
  On the concrete instance: the run of the counterexample. After the second call the
  reference slot is templated, the previous slot is not, the storages differ, and the
  current slot is templated because the call declared a keyframe with an empty
  previous slot. In a second run the estimates of the second and the third frame have
  no pixels at the test level: the second is accepted (no error), the third is rejected
  and re-estimated against the second frame; the current slot is then not templated.
\<close>

theorem slots_after_addFrame_witness:
  "(\<exists>impl0 impl ret impl'.
     Impl_new (scripted (demo_estimator [(good_stats, 5)])) demo_size demo_params = Inr impl0 \<and>
     run_frames (scripted (demo_estimator [(good_stats, 5)])) impl0 [(demo_Mat, demo_Mat, 1)] =
       Inr impl \<and>
     addFrame_Impl (scripted (demo_estimator [(good_stats, 5)])) impl demo_Mat demo_Mat 1 =
       Inr (ret, impl') \<and>
     hasTemplate (ref_frame impl) \<and> isKeyFrame ret \<and> empty_frame (prev_frame impl) \<and>
     hasTemplate (ref_frame impl') \<and> \<not> hasTemplate (prev_frame impl') \<and>
     distinct [storage (ref_frame impl'), storage (cur_frame impl'), storage (prev_frame impl')] \<and>
     hasTemplate (cur_frame impl')) \<and>
   (\<exists>impl0 impl ret impl'.
     Impl_new (scripted (demo_estimator
         [(void_stats, 3 / 4), (no_pixel_stats, 1), (good_stats, 3 / 4)])) demo_size demo_params =
       Inr impl0 \<and>
     run_frames (scripted (demo_estimator
         [(void_stats, 3 / 4), (no_pixel_stats, 1), (good_stats, 3 / 4)])) impl0
         [(demo_Mat, demo_Mat, 1), (demo_Mat, demo_Mat, 1)] =
       Inr impl \<and>
     addFrame_Impl (scripted (demo_estimator
         [(void_stats, 3 / 4), (no_pixel_stats, 1), (good_stats, 3 / 4)])) impl demo_Mat demo_Mat 1 =
       Inr (ret, impl') \<and>
     isKeyFrame ret \<and> \<not> empty_frame (prev_frame impl) \<and>
     hasTemplate (ref_frame impl') \<and> \<not> hasTemplate (prev_frame impl') \<and>
     distinct [storage (ref_frame impl'), storage (cur_frame impl'), storage (prev_frame impl')] \<and>
     \<not> hasTemplate (cur_frame impl'))"
proof -
  let ?E = "scripted (demo_estimator [(good_stats, 5)])"
  let ?i0 = "projr (Impl_new ?E demo_size demo_params)"
  let ?i1 = "projr (run_frames ?E ?i0 [(demo_Mat, demo_Mat, 1)])"
  let ?r = "projr (addFrame_Impl ?E ?i1 demo_Mat demo_Mat 1) :: (real, real) Result \<times> _"
  have h0: "Impl_new ?E demo_size demo_params = Inr ?i0"
    by (simp add: Impl_new_def Let_def)
  have h1: "run_frames ?E ?i0 [(demo_Mat, demo_Mat, 1)] = Inr ?i1"
    by (simp add: run_simps demo_simps)
  have h2: "addFrame_Impl ?E ?i1 demo_Mat demo_Mat 1 = Inr (fst ?r, snd ?r)"
    by (simp add: run_simps demo_simps)
  have k: "hasTemplate (ref_frame ?i1)" "isKeyFrame (fst ?r)" "empty_frame (prev_frame ?i1)"
    by (simp_all add: run_simps demo_simps)
  from slots_after_addFrame [OF h0 h1 h2] k
  have c: "hasTemplate (ref_frame (snd ?r))" "\<not> hasTemplate (prev_frame (snd ?r))"
    "distinct [storage (ref_frame (snd ?r)), storage (cur_frame (snd ?r)),
       storage (prev_frame (snd ?r))]"
    "hasTemplate (cur_frame (snd ?r))"
    by blast+
  from h0 h1 h2 k c
  have A: "\<exists>impl0 impl ret impl'.
     Impl_new ?E demo_size demo_params = Inr impl0 \<and>
     run_frames ?E impl0 [(demo_Mat, demo_Mat, 1)] = Inr impl \<and>
     addFrame_Impl ?E impl demo_Mat demo_Mat 1 = Inr (ret, impl') \<and>
     hasTemplate (ref_frame impl) \<and> isKeyFrame ret \<and> empty_frame (prev_frame impl) \<and>
     hasTemplate (ref_frame impl') \<and> \<not> hasTemplate (prev_frame impl') \<and>
     distinct [storage (ref_frame impl'), storage (cur_frame impl'), storage (prev_frame impl')] \<and>
     hasTemplate (cur_frame impl')"
    by blast
  let ?F = "scripted (demo_estimator
    [(void_stats, 3 / 4), (no_pixel_stats, 1), (good_stats, 3 / 4)])"
  let ?j0 = "projr (Impl_new ?F demo_size demo_params)"
  let ?j1 = "projr (run_frames ?F ?j0 [(demo_Mat, demo_Mat, 1), (demo_Mat, demo_Mat, 1)])"
  let ?q = "projr (addFrame_Impl ?F ?j1 demo_Mat demo_Mat 1) :: (real, real) Result \<times> _"
  have g0: "Impl_new ?F demo_size demo_params = Inr ?j0"
    by (simp add: Impl_new_def Let_def)
  have g1: "run_frames ?F ?j0 [(demo_Mat, demo_Mat, 1), (demo_Mat, demo_Mat, 1)] = Inr ?j1"
    by (simp add: run_simps demo_simps)
  have g2: "addFrame_Impl ?F ?j1 demo_Mat demo_Mat 1 = Inr (fst ?q, snd ?q)"
    by (simp add: run_simps demo_simps)
  have m: "isKeyFrame (fst ?q)" "\<not> empty_frame (prev_frame ?j1)"
    by (simp_all add: run_simps demo_simps)
  from slots_after_addFrame [OF g0 g1 g2] m
  have e: "hasTemplate (ref_frame (snd ?q))" "\<not> hasTemplate (prev_frame (snd ?q))"
    "distinct [storage (ref_frame (snd ?q)), storage (cur_frame (snd ?q)),
       storage (prev_frame (snd ?q))]"
    "\<not> hasTemplate (cur_frame (snd ?q))"
    by blast+
  from g0 g1 g2 m e
  have B: "\<exists>impl0 impl ret impl'.
     Impl_new ?F demo_size demo_params = Inr impl0 \<and>
     run_frames ?F impl0 [(demo_Mat, demo_Mat, 1), (demo_Mat, demo_Mat, 1)] = Inr impl \<and>
     addFrame_Impl ?F impl demo_Mat demo_Mat 1 = Inr (ret, impl') \<and>
     isKeyFrame ret \<and> \<not> empty_frame (prev_frame impl) \<and>
     hasTemplate (ref_frame impl') \<and> \<not> hasTemplate (prev_frame impl') \<and>
     distinct [storage (ref_frame impl'), storage (cur_frame impl'), storage (prev_frame impl')] \<and>
     \<not> hasTemplate (cur_frame impl')"
    by blast
  from A B show ?thesis
    by blast
qed

section \<open>Properties of \<open>shouldKeyFrame\<close>\<close>

text \<open>
  Claim C6. \<open>shouldKeyFrame\<close> tests the squared translation norm against the squared
  translation threshold, then the squared norm of the Euler angles against the squared
  rotation threshold, then the fraction of good points against its threshold, and
  returns the reason of the first test that fires, no-keyframe if none does. In
  particular a pose beyond both the translation and the rotation threshold is reported
  as large-translation.
\<close>

theorem shouldKeyFrame_priority:
  assumes "t = translation_squaredNorm env pose"
    and "r = eulerAngles_squaredNorm env pose"
    and "g = getFractionOfGoodPoints env e (goodPointThreshold p)"
  shows "(t > sq (minTranslationMagToKeyFrame p) \<longrightarrow>
        shouldKeyFrame env p e pose = kLargeTranslation) \<and>
     (\<not> t > sq (minTranslationMagToKeyFrame p) \<and> r > sq (minRotationMagToKeyFrame p) \<longrightarrow>
        shouldKeyFrame env p e pose = kLargeRotation) \<and>
     (\<not> t > sq (minTranslationMagToKeyFrame p) \<and> \<not> r > sq (minRotationMagToKeyFrame p) \<and>
      g < maxFractionOfGoodPointsToKeyFrame p \<longrightarrow>
        shouldKeyFrame env p e pose = kSmallFracOfGoodPoints) \<and>
     (\<not> t > sq (minTranslationMagToKeyFrame p) \<and> \<not> r > sq (minRotationMagToKeyFrame p) \<and>
      \<not> g < maxFractionOfGoodPointsToKeyFrame p \<longrightarrow>
        shouldKeyFrame env p e pose = kNoKeyFraming) \<and>
     (t > sq (minTranslationMagToKeyFrame p) \<and> r > sq (minRotationMagToKeyFrame p) \<longrightarrow>
        shouldKeyFrame env p e pose = kLargeTranslation)"
  using assms by (simp add: shouldKeyFrame_def Let_def)

text \<open>
  On the concrete instance the pose \<open>5\<close> has squared translation and rotation \<open>16\<close>, the
  pose \<open>3 / 4\<close> has \<open>1 / 16\<close>; the thresholds are \<open>1\<close>, and \<open>10\<close> for the translation in
  the second case; the fraction of good points is \<open>1\<close>, and \<open>1 / 4\<close> in the third case.
\<close>

theorem shouldKeyFrame_priority_witness:
  "translation_squaredNorm demo_env 5 > sq (minTranslationMagToKeyFrame demo_params) \<and>
   eulerAngles_squaredNorm demo_env 5 > sq (minRotationMagToKeyFrame demo_params) \<and>
   shouldKeyFrame demo_env demo_params (demo_estimator []) 5 = kLargeTranslation \<and>
   \<not> translation_squaredNorm demo_env 5 >
       sq (minTranslationMagToKeyFrame (demo_params\<lparr>minTranslationMagToKeyFrame := 10\<rparr>)) \<and>
   shouldKeyFrame demo_env (demo_params\<lparr>minTranslationMagToKeyFrame := 10\<rparr>)
     (demo_estimator []) 5 = kLargeRotation \<and>
   \<not> translation_squaredNorm demo_env (3 / 4) > sq (minTranslationMagToKeyFrame demo_params) \<and>
   \<not> eulerAngles_squaredNorm demo_env (3 / 4) > sq (minRotationMagToKeyFrame demo_params) \<and>
   getFractionOfGoodPoints demo_env ((demo_estimator [])\<lparr>script_fraction := 1 / 4\<rparr>)
       (goodPointThreshold demo_params) < maxFractionOfGoodPointsToKeyFrame demo_params \<and>
   shouldKeyFrame demo_env demo_params ((demo_estimator [])\<lparr>script_fraction := 1 / 4\<rparr>) (3 / 4) =
     kSmallFracOfGoodPoints \<and>
   \<not> getFractionOfGoodPoints demo_env (demo_estimator [])
       (goodPointThreshold demo_params) < maxFractionOfGoodPointsToKeyFrame demo_params \<and>
   shouldKeyFrame demo_env demo_params (demo_estimator []) (3 / 4) = kNoKeyFraming"
proof -
  let ?p = "demo_params\<lparr>minTranslationMagToKeyFrame := 10\<rparr>"
  let ?e = "(demo_estimator [])\<lparr>script_fraction := 1 / 4\<rparr>"
  have t5: "translation_squaredNorm demo_env 5 > sq (minTranslationMagToKeyFrame demo_params)"
    and r5: "eulerAngles_squaredNorm demo_env 5 > sq (minRotationMagToKeyFrame demo_params)"
    and t5': "\<not> translation_squaredNorm demo_env 5 > sq (minTranslationMagToKeyFrame ?p)"
    and r5': "eulerAngles_squaredNorm demo_env 5 > sq (minRotationMagToKeyFrame ?p)"
    and t3: "\<not> translation_squaredNorm demo_env (3 / 4) > sq (minTranslationMagToKeyFrame demo_params)"
    and r3: "\<not> eulerAngles_squaredNorm demo_env (3 / 4) > sq (minRotationMagToKeyFrame demo_params)"
    and g1: "getFractionOfGoodPoints demo_env ?e (goodPointThreshold demo_params) <
        maxFractionOfGoodPointsToKeyFrame demo_params"
    and g2: "\<not> getFractionOfGoodPoints demo_env (demo_estimator []) (goodPointThreshold demo_params) <
        maxFractionOfGoodPointsToKeyFrame demo_params"
    by (simp_all add: demo_simps sq_def)
  from shouldKeyFrame_priority [OF refl refl refl, where env = demo_env and pose = 5 and p = demo_params
      and e = "demo_estimator []"]
    t5 r5
  have a: "shouldKeyFrame demo_env demo_params (demo_estimator []) 5 = kLargeTranslation"
    by blast
  from shouldKeyFrame_priority [OF refl refl refl, where env = demo_env and pose = 5 and p = ?p
      and e = "demo_estimator []"]
    t5' r5'
  have b: "shouldKeyFrame demo_env ?p (demo_estimator []) 5 = kLargeRotation"
    by blast
  from shouldKeyFrame_priority [OF refl refl refl, where env = demo_env and pose = "3 / 4"
      and p = demo_params and e = ?e]
    t3 r3 g1
  have c: "shouldKeyFrame demo_env demo_params ?e (3 / 4) = kSmallFracOfGoodPoints"
    by blast
  from shouldKeyFrame_priority [OF refl refl refl, where env = demo_env and pose = "3 / 4"
      and p = demo_params and e = "demo_estimator []"]
    t3 r3 g2
  have d: "shouldKeyFrame demo_env demo_params (demo_estimator []) (3 / 4) = kNoKeyFraming"
    by blast
  from t5 r5 a t5' b t3 r3 g1 c g2 d show ?thesis
    by blast
qed

section \<open>Properties of the point cloud extractor\<close>

lemma length_fill_cloud: "length (fill_cloud img warp points weights i n ret) = length ret"
proof (induction img warp points weights i n ret rule: fill_cloud.induct)
  case (1 img warp points weights i n ret)
  show ?case
  proof (cases "i < n")
    case True
    with 1 show ?thesis by (subst fill_cloud.simps) (simp add: Let_def)
  next
    case False
    then show ?thesis by (subst fill_cloud.simps) simp
  qed
qed

text \<open>The loop has written the entries from \<open>i\<close> on and has left the ones before.\<close>

lemma nth_fill_cloud:
  "length ret = n \<Longrightarrow> j < n \<Longrightarrow>
   fill_cloud img warp points weights i n ret ! j =
     (if i \<le> j
      then \<lparr>xyzw = points ! j, rgba = GetColor img warp (points ! j), weight = weights ! j\<rparr>
      else ret ! j)"
proof (induction img warp points weights i n ret rule: fill_cloud.induct)
  case (1 img warp points weights i n ret)
  show ?case
  proof (cases "i < n")
    case True
    let ?ret = "ret[i := \<lparr>xyzw = points ! i, rgba = GetColor img warp (points ! i),
      weight = weights ! i\<rparr>]"
    from 1(1) [OF True refl] 1(2,3)
    have "fill_cloud img warp points weights (Suc i) n ?ret ! j =
     (if Suc i \<le> j
      then \<lparr>xyzw = points ! j, rgba = GetColor img warp (points ! j), weight = weights ! j\<rparr>
      else ?ret ! j)"
      by simp
    with True 1(2,3) show ?thesis
      by (subst fill_cloud.simps) (auto simp: Let_def nth_list_update not_less_eq_eq)
  next
    case False
    with 1(3) show ?thesis by (subst fill_cloud.simps) simp
  qed
qed

text \<open>
  Claim C9. With \<open>points\<close> the tracked points of the reference frame at the test level
  and \<open>weights\<close> the weights of the estimator: if their counts differ, the extractor
  returns no cloud (and no error: its result is a cloud or none). If they agree, it
  returns a cloud with one entry per point, entry \<open>i\<close> holding point \<open>i\<close>, weight \<open>i\<close> and
  the colour of point \<open>i\<close>. The colour of a point is the sample of the image at the
  point's image coordinate if that lies inside the image, and zero if not, three times,
  with opacity \<open>255\<close>.
\<close>

theorem getPointCloudFromRefFrame_cloud:
  assumes "points = template_points env (ref_frame impl) (maxTestLevel (params impl))"
    and "weights = getWeights env (vo_pose impl)"
    and "img = imagePointer (ref_frame impl)"
    and "warp = template_warp env (ref_frame impl) (maxTestLevel (params impl))"
  shows "(length points \<noteq> length weights \<longrightarrow> getPointCloudFromRefFrame env impl = None) \<and>
     (length points = length weights \<longrightarrow>
        (\<exists>cloud. getPointCloudFromRefFrame env impl = Some cloud \<and>
           length cloud = length points \<and>
           (\<forall>i < length points.
              xyzw (cloud ! i) = points ! i \<and> weight (cloud ! i) = weights ! i \<and>
              rgba (cloud ! i) = GetColor img warp (points ! i)))) \<and>
     (\<forall>pt u v. warp pt = (u, v) \<longrightarrow>
        GetColor img warp pt =
          (if 0 \<le> v \<and> v < real_of_int (mat_rows img) \<and> 0 \<le> u \<and> u < real_of_int (mat_cols img)
           then (mat_at img \<lfloor>v\<rfloor> \<lfloor>u\<rfloor>, mat_at img \<lfloor>v\<rfloor> \<lfloor>u\<rfloor>, mat_at img \<lfloor>v\<rfloor> \<lfloor>u\<rfloor>, 255)
           else (0, 0, 0, 255)))"
proof (intro conjI impI allI)
  assume "length points \<noteq> length weights"
  with assms show "getPointCloudFromRefFrame env impl = None"
    by (simp add: getPointCloudFromRefFrame_def pointsAtLevel_def Let_def)
next
  assume eq: "length points = length weights"
  let ?n = "length points"
  let ?cloud = "fill_cloud img warp points weights 0 ?n (replicate ?n (default_PointWithInfo env))"
  from eq assms have "getPointCloudFromRefFrame env impl = Some ?cloud"
    by (simp add: getPointCloudFromRefFrame_def pointsAtLevel_def Let_def)
  moreover have "length ?cloud = ?n"
    by (simp add: length_fill_cloud)
  moreover have "\<forall>i < ?n.
              xyzw (?cloud ! i) = points ! i \<and> weight (?cloud ! i) = weights ! i \<and>
              rgba (?cloud ! i) = GetColor img warp (points ! i)"
    by (simp add: nth_fill_cloud)
  ultimately show "\<exists>cloud. getPointCloudFromRefFrame env impl = Some cloud \<and>
           length cloud = length points \<and>
           (\<forall>i < length points.
              xyzw (cloud ! i) = points ! i \<and> weight (cloud ! i) = weights ! i \<and>
              rgba (cloud ! i) = GetColor img warp (points ! i))"
    by blast
next
  fix pt u v
  assume "warp pt = (u, v)"
  then show "GetColor img warp pt =
          (if 0 \<le> v \<and> v < real_of_int (mat_rows img) \<and> 0 \<le> u \<and> u < real_of_int (mat_cols img)
           then (mat_at img \<lfloor>v\<rfloor> \<lfloor>u\<rfloor>, mat_at img \<lfloor>v\<rfloor> \<lfloor>u\<rfloor>, mat_at img \<lfloor>v\<rfloor> \<lfloor>u\<rfloor>, 255)
           else (0, 0, 0, 255))"
    by (simp add: GetColor_def c_trunc_def Let_def)
qed

text \<open>
  On the concrete instance the reference frame has the points \<open>(0, 0, 3)\<close> and
  \<open>(7, 1, 3)\<close>, projected to \<open>(0, 0)\<close>, where the image of two rows and two columns has
  the sample \<open>10\<close>, and to \<open>(7, 1)\<close>, outside it. With the two weights \<open>1 / 2\<close> and
  \<open>1 / 4\<close> the cloud has two entries; with one weight there is no cloud.
\<close>

theorem getPointCloudFromRefFrame_cloud_witness:
  "length (template_points demo_env (ref_frame (demo_tracking Empty [])) 0) =
     length (getWeights demo_env (vo_pose (demo_tracking Empty []))) \<and>
   (\<exists>cloud. getPointCloudFromRefFrame demo_env (demo_tracking Empty []) = Some cloud \<and>
      length cloud = 2 \<and>
      cloud ! 0 = \<lparr>xyzw = (0, 0, 3), rgba = (10, 10, 10, 255), weight = 1 / 2\<rparr> \<and>
      cloud ! 1 = \<lparr>xyzw = (7, 1, 3), rgba = (0, 0, 0, 255), weight = 1 / 4\<rparr>) \<and>
   length (template_points demo_env (ref_frame (demo_tracking Empty [])) 0) \<noteq>
     length (getWeights demo_env
       (vo_pose ((demo_tracking Empty [])\<lparr>vo_pose :=
          \<lparr>outcomes = [], script_weights = [1], script_fraction = 1\<rparr>\<rparr>))) \<and>
   getPointCloudFromRefFrame demo_env
     ((demo_tracking Empty [])\<lparr>vo_pose :=
        \<lparr>outcomes = [], script_weights = [1], script_fraction = 1\<rparr>\<rparr>) = None"
proof -
  let ?a = "demo_tracking Empty []"
  let ?b = "(demo_tracking Empty [])\<lparr>vo_pose :=
        \<lparr>outcomes = [], script_weights = [1], script_fraction = 1\<rparr>\<rparr>"
  let ?points = "template_points demo_env (ref_frame ?a) (maxTestLevel (params ?a))"
  let ?weights = "getWeights demo_env (vo_pose ?a)"
  let ?img = "imagePointer (ref_frame ?a)"
  let ?warp = "template_warp demo_env (ref_frame ?a) (maxTestLevel (params ?a))"
  have pts: "?points = [(0, 0, 3), (7, 1, 3)]"
    and ws: "?weights = [1 / 2, 1 / 4]"
    and w0: "?warp (0, 0, 3) = (0, 0)"
    and w1: "?warp (7, 1, 3) = (7, 1)"
    and im: "mat_rows ?img = 2" "mat_cols ?img = 2" "mat_at ?img 0 0 = 10"
    by (simp_all add: demo_simps)
  from pts ws have eq: "length ?points = length ?weights"
    by simp
  note thm_a = getPointCloudFromRefFrame_cloud [OF refl refl refl refl, where env = demo_env and impl = ?a]
  from thm_a eq obtain cloud where
    cl: "getPointCloudFromRefFrame demo_env ?a = Some cloud" "length cloud = length ?points"
      "\<forall>i < length ?points.
          xyzw (cloud ! i) = ?points ! i \<and> weight (cloud ! i) = ?weights ! i \<and>
          rgba (cloud ! i) = GetColor ?img ?warp (?points ! i)"
    by blast
  from thm_a w0 have "GetColor ?img ?warp (0, 0, 3) =
      (if 0 \<le> (0::real) \<and> 0 < real_of_int (mat_rows ?img) \<and> 0 \<le> (0::real) \<and>
          0 < real_of_int (mat_cols ?img)
       then (mat_at ?img \<lfloor>0::real\<rfloor> \<lfloor>0::real\<rfloor>, mat_at ?img \<lfloor>0::real\<rfloor> \<lfloor>0::real\<rfloor>,
             mat_at ?img \<lfloor>0::real\<rfloor> \<lfloor>0::real\<rfloor>, 255)
       else (0, 0, 0, 255))"
    by blast
  with im have c0: "GetColor ?img ?warp (0, 0, 3) = (10, 10, 10, 255)"
    by simp
  from thm_a w1 have "GetColor ?img ?warp (7, 1, 3) =
      (if 0 \<le> (1::real) \<and> 1 < real_of_int (mat_rows ?img) \<and> 0 \<le> (7::real) \<and>
          7 < real_of_int (mat_cols ?img)
       then (mat_at ?img \<lfloor>1::real\<rfloor> \<lfloor>7::real\<rfloor>, mat_at ?img \<lfloor>1::real\<rfloor> \<lfloor>7::real\<rfloor>,
             mat_at ?img \<lfloor>1::real\<rfloor> \<lfloor>7::real\<rfloor>, 255)
       else (0, 0, 0, 255))"
    by blast
  with im have c1: "GetColor ?img ?warp (7, 1, 3) = (0, 0, 0, 255)"
    by simp
  from cl(2) pts have l: "length cloud = 2"
    by simp
  from cl(3) pts have "xyzw (cloud ! 0) = ?points ! 0 \<and> weight (cloud ! 0) = ?weights ! 0 \<and>
          rgba (cloud ! 0) = GetColor ?img ?warp (?points ! 0)"
    by simp
  with pts ws c0 have e0: "cloud ! 0 = \<lparr>xyzw = (0, 0, 3), rgba = (10, 10, 10, 255), weight = 1 / 2\<rparr>"
    by simp
  from cl(3) pts have "xyzw (cloud ! 1) = ?points ! 1 \<and> weight (cloud ! 1) = ?weights ! 1 \<and>
          rgba (cloud ! 1) = GetColor ?img ?warp (?points ! 1)"
    by simp
  with pts ws c1 have e1: "cloud ! 1 = \<lparr>xyzw = (7, 1, 3), rgba = (0, 0, 0, 255), weight = 1 / 4\<rparr>"
    by simp
  from cl(1) l e0 e1
  have A: "\<exists>cloud. getPointCloudFromRefFrame demo_env ?a = Some cloud \<and>
      length cloud = 2 \<and>
      cloud ! 0 = \<lparr>xyzw = (0, 0, 3), rgba = (10, 10, 10, 255), weight = 1 / 2\<rparr> \<and>
      cloud ! 1 = \<lparr>xyzw = (7, 1, 3), rgba = (0, 0, 0, 255), weight = 1 / 4\<rparr>"
    by blast
  have ne: "length (template_points demo_env (ref_frame ?b) (maxTestLevel (params ?b))) \<noteq>
      length (getWeights demo_env (vo_pose ?b))"
    by (simp add: demo_simps)
  from getPointCloudFromRefFrame_cloud [OF refl refl refl refl, where env = demo_env and impl = ?b] ne
  have B: "getPointCloudFromRefFrame demo_env ?b = None"
    by blast
  from eq have eq': "length (template_points demo_env (ref_frame ?a) 0) = length ?weights"
    by simp
  from ne have ne': "length (template_points demo_env (ref_frame ?a) 0) \<noteq>
      length (getWeights demo_env (vo_pose ?b))"
    by simp
  from eq' A ne' B show ?thesis
    by blast
qed

end
